theory Spec2Isabelle
  imports Main "HOL-Library.Word"
begin

unbundle bit_operations_syntax

section \<open>Connection flags of govc: the data model\<close>

text \<open>
  Go's \<open>url.Userinfo\<close>: a username and an optional password. \<open>url.User u\<close> builds a
  value with no password set, \<open>url.UserPassword u p\<close> one with the password set.
\<close>

record Userinfo =
  ui_username :: string
  ui_password :: string
  ui_passwordSet :: bool

definition url_User :: "string \<Rightarrow> Userinfo" where
  "url_User u = \<lparr>ui_username = u, ui_password = [], ui_passwordSet = False\<rparr>"

definition url_UserPassword :: "string \<Rightarrow> string \<Rightarrow> Userinfo" where
  "url_UserPassword u p = \<lparr>ui_username = u, ui_password = p, ui_passwordSet = True\<rparr>"

text \<open>\<open>Userinfo.Username\<close> and \<open>Userinfo.Password\<close>, which answer for a nil receiver too.\<close>

definition Username :: "Userinfo option \<Rightarrow> string" where
  "Username u = (case u of None \<Rightarrow> [] | Some i \<Rightarrow> ui_username i)"

definition Password :: "Userinfo option \<Rightarrow> string \<times> bool" where
  "Password u = (case u of None \<Rightarrow> ([], False) | Some i \<Rightarrow> (ui_password i, ui_passwordSet i))"

text \<open>Go's \<open>url.URL\<close>, with the fields the flag code reads or writes.\<close>

record URL =
  Scheme :: string
  Opaque :: string
  User :: "Userinfo option"
  Host :: string
  Path :: string
  RawQuery :: string
  Fragment :: string

text \<open>
  The \<open>soap.Client\<close> that \<open>newClient\<close> configures, and the round trippers built on it:
  \<open>Retry rt n\<close> is \<open>vim25.Retry(rt, vim25.TemporaryNetworkError(n))\<close>.
\<close>

record soapClient =
  sc_url :: URL
  sc_insecure :: bool
  sc_certificate :: "string option"
  Namespace :: string
  Version :: string

datatype RoundTripper = nilRoundTripper | soapRoundTripper soapClient | Retry RoundTripper nat

text \<open>
  \<open>vim25.Client\<close>: the embedded \<open>soap.Client\<close> pointer, the round tripper, and the API
  version that the service content advertises (\<open>ServiceContent.About.ApiVersion\<close>).
  \<open>new_Client\<close> is the zero value that \<open>new(vim25.Client)\<close> allocates.
\<close>

record Client =
  Client_soap :: "soapClient option"
  RoundTripper :: RoundTripper
  ApiVersion :: string

definition new_Client :: Client where
  "new_Client = \<lparr>Client_soap = None, RoundTripper = nilRoundTripper, ApiVersion = []\<rparr>"

text \<open>
  \<open>ClientFlag\<close> of \<open>govc/flags/client.go\<close>. The \<open>url\<close> pointer may be nil (\<open>None\<close>).
\<close>

record ClientFlag =
  url :: "URL option"
  username :: string
  password :: string
  cert :: string
  key :: string
  insecure :: bool
  persist :: bool
  minAPIVersion :: string
  vimNamespace :: string
  vimVersion :: string
  client :: "Client option"

datatype VimFault = ManagedObjectNotFound | FileNotFound | OtherVimFault string

text \<open>
  Errors as values. \<open>errorString\<close> is what \<open>errors.New\<close> and \<open>fmt.Errorf\<close> build;
  \<open>PathError\<close> is an \<open>os\<close> error, whose flag is the answer of \<open>os.IsNotExist\<close>;
  \<open>SoapFaultError\<close> is an error for which \<open>soap.IsSoapFault\<close> holds, carrying the fault
  that \<open>VimFault()\<close> returns; \<open>TaskError\<close> is the fault of a failed task; \<open>NetError\<close> is
  a \<open>net.Error\<close>, whose flag is the answer of \<open>Temporary()\<close>. A run-time panic (a nil
  pointer dereference) is the value \<open>runtimePanic\<close>, which every caller passes on.
\<close>

datatype error =
    errorString string
  | PathError bool string
  | SoapFaultError VimFault
  | TaskError VimFault
  | NetError bool string
  | OtherError string
  | runtimePanic string

section \<open>Process: explicit credentials override the URL's\<close>

text \<open>The block \<open>// Override username if set\<close> of \<open>ClientFlag.Process\<close>.\<close>

definition override_username :: "string \<Rightarrow> URL \<Rightarrow> URL" where
  "override_username name u =
     (if name \<noteq> [] then
        (let (pw, ok) = (if User u \<noteq> None then Password (User u) else ([], False))
         in if ok then u\<lparr>User := Some (url_UserPassword name pw)\<rparr>
            else u\<lparr>User := Some (url_User name)\<rparr>)
      else u)"

text \<open>The block \<open>// Override password if set\<close> of \<open>ClientFlag.Process\<close>.\<close>

definition override_password :: "string \<Rightarrow> URL \<Rightarrow> URL" where
  "override_password pw u =
     (if pw \<noteq> [] then
        (let name = (if User u \<noteq> None then Username (User u) else [])
         in u\<lparr>User := Some (url_UserPassword name pw)\<rparr>)
      else u)"



section \<open>Register: the defaults read from the environment\<close>

text \<open>
  \<open>strings.ToLower\<close> on the ASCII letters. The results are only compared with the ASCII
  tokens \<open>0\<close>, \<open>1\<close>, \<open>true\<close> and \<open>false\<close>, and no other byte sequence is mapped by
  \<open>strings.ToLower\<close> onto one of their letters.
\<close>

definition lower_char :: "char \<Rightarrow> char" where
  "lower_char c =
     (if 65 \<le> (of_char c :: nat) \<and> (of_char c :: nat) \<le> 90 then char_of ((of_char c :: nat) + 32) else c)"

definition ToLower :: "string \<Rightarrow> string" where
  "ToLower s = map lower_char s"

text \<open>
  The three defaults that \<open>ClientFlag.Register\<close> computes from \<open>os.Getenv\<close>, which
  returns the empty string for a variable that is not set.
\<close>

definition Register_insecure :: "string \<Rightarrow> bool" where
  "Register_insecure env = (ToLower env = ''1'' \<or> ToLower env = ''true'')"

definition Register_persist :: "string \<Rightarrow> bool" where
  "Register_persist env = (\<not> (ToLower env = ''0'' \<or> ToLower env = ''false''))"

definition Register_minAPIVersion :: "string \<Rightarrow> string" where
  "Register_minAPIVersion env = (if env = [] then ''5.5'' else env)"

section \<open>Library functions the flag code calls\<close>

subsection \<open>Package path\<close>

text \<open>
  \<open>path.Clean\<close> (and \<open>filepath.Clean\<close> on Unix). \<open>clean_back out dotdot w\<close> is the inner
  loop of the \<open>..\<close> case, which moves the write index \<open>w\<close> back to the last slash, and
  \<open>clean_loop\<close> is the main loop over the unread rest of the path, with the written
  output \<open>out\<close>.
\<close>

fun clean_back :: "string \<Rightarrow> nat \<Rightarrow> nat \<Rightarrow> nat" where
  "clean_back out dotdot 0 = 0"
| "clean_back out dotdot (Suc w) =
     (if Suc w > dotdot \<and> out ! Suc w \<noteq> CHR ''/'' then clean_back out dotdot w else Suc w)"

function clean_loop :: "bool \<Rightarrow> string \<Rightarrow> nat \<Rightarrow> string \<Rightarrow> string" where
  "clean_loop rooted out dotdot [] = out"
| "clean_loop rooted out dotdot (c # rest) =
     (if c = CHR ''/'' then clean_loop rooted out dotdot rest
      else if c = CHR ''.'' \<and> (rest = [] \<or> hd rest = CHR ''/'') then clean_loop rooted out dotdot rest
      else if c = CHR ''.'' \<and> rest \<noteq> [] \<and> hd rest = CHR ''.''
                \<and> (tl rest = [] \<or> hd (tl rest) = CHR ''/'') then
        (if length out > dotdot then
           clean_loop rooted (take (clean_back out dotdot (length out - 1)) out) dotdot (tl rest)
         else if \<not> rooted then
           (let out' = (if length out > 0 then out @ ''/'' else out) @ ''..''
            in clean_loop rooted out' (length out') (tl rest))
         else clean_loop rooted out dotdot (tl rest))
      else
        (let out' = (if rooted \<and> length out \<noteq> 1 \<or> \<not> rooted \<and> length out \<noteq> 0
                     then out @ ''/'' else out)
         in clean_loop rooted (out' @ takeWhile (\<lambda>x. x \<noteq> CHR ''/'') (c # rest)) dotdot
              (dropWhile (\<lambda>x. x \<noteq> CHR ''/'') rest)))"
  by pat_completeness auto
termination
proof (relation "measure (\<lambda>(rooted, out, dotdot, p). length p)")
  show "wf (measure (\<lambda>(rooted, out, dotdot, p). length p))"
    by simp
qed (auto simp: less_Suc_eq_le length_dropWhile_le)

definition Clean :: "string \<Rightarrow> string" where
  "Clean p =
     (if p = [] then ''.''
      else
        (let rooted = (hd p = CHR ''/'');
             out = (if rooted then clean_loop True ''/'' 1 (tl p) else clean_loop False [] 0 p)
         in if out = [] then ''.'' else out))"

text \<open>\<open>strings.Join\<close> with a separator.\<close>

fun strings_Join :: "string list \<Rightarrow> string \<Rightarrow> string" where
  "strings_Join [] sep = []"
| "strings_Join [e] sep = e"
| "strings_Join (e # es) sep = e @ sep @ strings_Join es sep"

text \<open>
  \<open>filepath.Join\<close> on Unix: the elements from the first non-empty one on, joined with
  slashes and cleaned; the empty string when every element is empty.
\<close>

fun filepath_Join :: "string list \<Rightarrow> string" where
  "filepath_Join [] = []"
| "filepath_Join (e # es) =
     (if e \<noteq> [] then Clean (strings_Join (e # es) ''/'') else filepath_Join es)"

text \<open>
  \<open>path.Split\<close> cuts after the last slash; \<open>path.Dir\<close> (and \<open>filepath.Dir\<close> on Unix)
  cleans the first half; \<open>path.Base\<close> is the last element of the path.
\<close>

definition path_Split :: "string \<Rightarrow> string \<times> string" where
  "path_Split p =
     (rev (dropWhile (\<lambda>x. x \<noteq> CHR ''/'') (rev p)), rev (takeWhile (\<lambda>x. x \<noteq> CHR ''/'') (rev p)))"

definition path_Dir :: "string \<Rightarrow> string" where
  "path_Dir p = Clean (fst (path_Split p))"

definition path_Base :: "string \<Rightarrow> string" where
  "path_Base p =
     (if p = [] then ''.''
      else
        (let q = rev (dropWhile (\<lambda>x. x = CHR ''/'') (rev p));
             b = snd (path_Split q)
         in if b = [] then ''/'' else b))"

subsection \<open>Package net/url\<close>

text \<open>
  \<open>URL.String\<close> of Go's \<open>net/url\<close>, for URL values whose \<open>RawPath\<close> and \<open>RawFragment\<close>
  are empty and whose \<open>ForceQuery\<close> and \<open>OmitHost\<close> are false. \<open>shouldEscape\<close> and
  \<open>escape\<close> are the package's percent-encoding, for the four modes that \<open>String\<close> uses.
\<close>

datatype encoding = encodePath | encodeUserPassword | encodeHost | encodeFragment

definition isAlnum :: "char \<Rightarrow> bool" where
  "isAlnum c =
     (let n = (of_char c :: nat)
      in (97 \<le> n \<and> n \<le> 122) \<or> (65 \<le> n \<and> n \<le> 90) \<or> (48 \<le> n \<and> n \<le> 57))"

definition shouldEscape :: "char \<Rightarrow> encoding \<Rightarrow> bool" where
  "shouldEscape c mode =
     (if isAlnum c then False
      else if mode = encodeHost
              \<and> c \<in> set (''!$&()*+,;=:[]<>'' @ [CHR 0x27, CHR 0x22]) then False
      else if c \<in> set ''-_.~'' then False
      else if c \<in> set ''$&+,/:;=?@'' then
        (case mode of
           encodePath \<Rightarrow> c = CHR ''?''
         | encodeUserPassword \<Rightarrow> c = CHR ''@'' \<or> c = CHR ''/'' \<or> c = CHR ''?'' \<or> c = CHR '':''
         | encodeFragment \<Rightarrow> False
         | encodeHost \<Rightarrow> True)
      else if mode = encodeFragment \<and> c \<in> set ''!()*'' then False
      else True)"

definition upperhex :: "nat \<Rightarrow> char" where
  "upperhex n = ''0123456789ABCDEF'' ! n"

fun escape :: "string \<Rightarrow> encoding \<Rightarrow> string" where
  "escape [] mode = []"
| "escape (c # s) mode =
     (if shouldEscape c mode
      then CHR ''%'' # upperhex ((of_char c :: nat) div 16) # upperhex ((of_char c :: nat) mod 16)
             # escape s mode
      else c # escape s mode)"

definition Userinfo_String :: "Userinfo \<Rightarrow> string" where
  "Userinfo_String ui =
     escape (ui_username ui) encodeUserPassword
       @ (if ui_passwordSet ui then '':'' @ escape (ui_password ui) encodeUserPassword else [])"

definition EscapedPath :: "URL \<Rightarrow> string" where
  "EscapedPath u = (if Path u = ''*'' then ''*'' else escape (Path u) encodePath)"

definition URL_String :: "URL \<Rightarrow> string" where
  "URL_String u =
     (let buf0 = (if Scheme u \<noteq> [] then Scheme u @ '':'' else []);
          buf1 =
            (if Opaque u \<noteq> [] then buf0 @ Opaque u
             else
               (let b1 =
                      (if Scheme u \<noteq> [] \<or> Host u \<noteq> [] \<or> User u \<noteq> None then
                         buf0
                           @ (if Host u \<noteq> [] \<or> Path u \<noteq> [] \<or> User u \<noteq> None then ''//'' else [])
                           @ (case User u of None \<Rightarrow> [] | Some ui \<Rightarrow> Userinfo_String ui @ ''@'')
                           @ (if Host u \<noteq> [] then escape (Host u) encodeHost else [])
                       else buf0);
                    path = EscapedPath u;
                    b2 = (if path \<noteq> [] \<and> hd path \<noteq> CHR ''/'' \<and> Host u \<noteq> [] then b1 @ ''/'' else b1);
                    b3 = (if b2 = [] \<and> CHR '':'' \<in> set (takeWhile (\<lambda>x. x \<noteq> CHR ''/'') path)
                          then ''./'' else b2)
                in b3 @ path));
          buf2 = (if RawQuery u \<noteq> [] then buf1 @ ''?'' @ RawQuery u else buf1)
      in if Fragment u \<noteq> [] then buf2 @ ''#'' @ escape (Fragment u) encodeFragment else buf2)"

subsection \<open>Package crypto/sha1 and the \<open>%040x\<close> verb\<close>

text \<open>
  SHA-1 as \<open>crypto/sha1\<close> computes it. Bytes and 32-bit words are natural numbers, with
  the wrap-around of \<open>uint32\<close> written out: \<open>add32\<close> is \<open>+\<close>, \<open>not32\<close> is \<open>^x\<close>,
  \<open>RotateLeft32\<close> is \<open>bits.RotateLeft32\<close>. \<open>sha1_rounds n i w s\<close> runs \<open>n\<close> rounds from
  round \<open>i\<close> on; \<open>w\<close> holds the sixteen words of the message schedule from round \<open>i\<close> on.
\<close>

type_synonym byte = nat
type_synonym uint32 = nat
type_synonym digest = "uint32 \<times> uint32 \<times> uint32 \<times> uint32 \<times> uint32"

definition add32 :: "uint32 \<Rightarrow> uint32 \<Rightarrow> uint32" where
  "add32 x y = (x + y) mod 2 ^ 32"

definition not32 :: "uint32 \<Rightarrow> uint32" where
  "not32 x = 4294967295 - x"

definition RotateLeft32 :: "uint32 \<Rightarrow> nat \<Rightarrow> uint32" where
  "RotateLeft32 x k = (push_bit k x) mod 2 ^ 32 OR drop_bit (32 - k) x"

definition sha1_f :: "nat \<Rightarrow> uint32 \<Rightarrow> uint32 \<Rightarrow> uint32 \<Rightarrow> uint32" where
  "sha1_f i b c d =
     (if i < 20 then (b AND c) OR (not32 b AND d)
      else if i < 40 then b XOR c XOR d
      else if i < 60 then ((b OR c) AND d) OR (b AND c)
      else b XOR c XOR d)"

definition sha1_K :: "nat \<Rightarrow> uint32" where
  "sha1_K i =
     (if i < 20 then 0x5A827999 else if i < 40 then 0x6ED9EBA1
      else if i < 60 then 0x8F1BBCDC else 0xCA62C1D6)"

fun sha1_rounds :: "nat \<Rightarrow> nat \<Rightarrow> uint32 list \<Rightarrow> digest \<Rightarrow> digest" where
  "sha1_rounds 0 i w s = s"
| "sha1_rounds (Suc n) i w (a, b, c, d, e) =
     sha1_rounds n (i + 1) (tl w @ [RotateLeft32 (w ! 13 XOR w ! 8 XOR w ! 2 XOR w ! 0) 1])
       (add32 (add32 (add32 (add32 (RotateLeft32 a 5) (sha1_f i b c d)) e) (w ! 0)) (sha1_K i),
        a, RotateLeft32 b 30, c, d)"

fun be32 :: "byte list \<Rightarrow> uint32 list" where
  "be32 (p0 # p1 # p2 # p3 # r) =
     (push_bit 24 p0 OR push_bit 16 p1 OR push_bit 8 p2 OR p3) # be32 r"
| "be32 _ = []"

definition sha1_block :: "digest \<Rightarrow> byte list \<Rightarrow> digest" where
  "sha1_block h p =
     (case h of (h0, h1, h2, h3, h4) \<Rightarrow>
        case sha1_rounds 80 0 (be32 p) h of (a, b, c, d, e) \<Rightarrow>
          (add32 h0 a, add32 h1 b, add32 h2 c, add32 h3 d, add32 h4 e))"

function sha1_blocks :: "digest \<Rightarrow> byte list \<Rightarrow> digest" where
  "sha1_blocks h p =
     (if 64 \<le> length p then sha1_blocks (sha1_block h (take 64 p)) (drop 64 p) else h)"
  by pat_completeness auto
termination
  by (relation "measure (\<lambda>(h, p). length p)") auto

declare sha1_blocks.simps [simp del]

definition byte_of :: "nat \<Rightarrow> byte" where
  "byte_of x = x mod 256"

text \<open>
  The padding that \<open>checkSum\<close> writes: the byte \<open>0x80\<close>, zeros up to 56 bytes modulo 64,
  and the length in bits (\<open>len << 3\<close>, a \<open>uint64\<close>) as eight big-endian bytes.
\<close>

definition sha1_pad :: "byte list \<Rightarrow> byte list" where
  "sha1_pad m =
     (let len = length m;
          k = (if len mod 64 < 56 then 56 - len mod 64 else 64 + 56 - len mod 64);
          bits = (len * 8) mod 2 ^ 64
      in m @ (0x80 # replicate (k - 1) 0)
           @ [byte_of (drop_bit 56 bits), byte_of (drop_bit 48 bits), byte_of (drop_bit 40 bits),
              byte_of (drop_bit 32 bits), byte_of (drop_bit 24 bits), byte_of (drop_bit 16 bits),
              byte_of (drop_bit 8 bits), byte_of bits])"

definition sha1_init :: digest where
  "sha1_init = (0x67452301, 0xEFCDAB89, 0x98BADCFE, 0x10325476, 0xC3D2E1F0)"

definition put32 :: "uint32 \<Rightarrow> byte list" where
  "put32 x = [byte_of (drop_bit 24 x), byte_of (drop_bit 16 x), byte_of (drop_bit 8 x), byte_of x]"

definition sha1_Sum :: "byte list \<Rightarrow> byte list" where
  "sha1_Sum m =
     (case sha1_blocks sha1_init (sha1_pad m) of (h0, h1, h2, h3, h4) \<Rightarrow>
        put32 h0 @ put32 h1 @ put32 h2 @ put32 h3 @ put32 h4)"

definition bytes_of :: "string \<Rightarrow> byte list" where
  "bytes_of s = map of_char s"

definition hexdigit :: "nat \<Rightarrow> char" where
  "hexdigit n = ''0123456789abcdef'' ! n"

text \<open>
  \<open>fmt.Sprintf("%040x", b)\<close> for a byte array: two lower-case hexadecimal digits for each
  byte, padded on the left with zeros to forty characters.
\<close>

definition Sprintf_040x :: "byte list \<Rightarrow> string" where
  "Sprintf_040x bs =
     (let s = concat (map (\<lambda>c. [hexdigit (drop_bit 4 c), hexdigit (c AND 0x0F)]) bs)
      in replicate (40 - length s) CHR ''0'' @ s)"

section \<open>The session file\<close>

text \<open>
  \<open>ClientFlag.URLWithoutPassword\<close>: nil for a nil URL, and otherwise the copy
  \<open>withoutCredentials\<close> of the URL, whose user keeps the username only.
\<close>

definition withoutCredentials :: "URL \<Rightarrow> URL" where
  "withoutCredentials u = u\<lparr>User := Some (url_User (Username (User u)))\<rparr>"

definition URLWithoutPassword :: "ClientFlag \<Rightarrow> URL option" where
  "URLWithoutPassword flag =
     (case url flag of
        None \<Rightarrow> None
      | Some u \<Rightarrow> Some (withoutCredentials u))"

text \<open>
  The key that \<open>ClientFlag.sessionFile\<close> hashes, and \<open>sessionFile\<close> itself; \<open>home\<close> is the
  value of \<open>$HOME\<close>. \<open>String\<close> on a nil URL panics.
\<close>

definition sessionKey :: "URL \<Rightarrow> bool \<Rightarrow> string" where
  "sessionKey u ins = URL_String u @ ''#insecure='' @ (if ins then ''true'' else ''false'')"

definition sessionFile :: "string \<Rightarrow> ClientFlag \<Rightarrow> error + string" where
  "sessionFile home flag =
     (case URLWithoutPassword flag of
        None \<Rightarrow> Inl (runtimePanic ''nil pointer dereference'')
      | Some u \<Rightarrow>
          (let key = sessionKey u (insecure flag);
               name = Sprintf_040x (sha1_Sum (bytes_of key))
           in Inr (filepath_Join [home, ''.govmomi'', ''sessions'', name])))"

section \<open>Calls out of the process\<close>

text \<open>
  What lies outside these sources is gathered in one record: the environment variables
  \<open>HOME\<close> and \<open>USER\<close>, the file system, the JSON codec, the key-pair loader, the calls to
  the remote service, and \<open>vim25.Client.Valid\<close>. Each field gives the outcome of the call
  for its arguments.
\<close>

record LocalTicket =
  UserName :: string
  PasswordFilePath :: string

record world =
  HOME :: string
  USER :: string
  os_Open :: "string \<Rightarrow> error + string"
  json_Decode :: "string \<Rightarrow> error + Client"
  os_MkdirAll :: "string \<Rightarrow> error option"
  os_OpenFile :: "string \<Rightarrow> error option"
  json_Encode :: "Client \<Rightarrow> error option"
  Valid :: "Client \<Rightarrow> bool"
  UserSession :: "Client \<Rightarrow> error + string option"
  LoadX509KeyPair :: "string \<Rightarrow> string \<Rightarrow> error + string"
  vim25_NewClient :: "RoundTripper \<Rightarrow> error + Client"
  AcquireLocalTicket :: "string \<Rightarrow> error + LocalTicket"
  ioutil_ReadFile :: "string \<Rightarrow> error + string"
  LoginExtensionByCertificate :: "string \<Rightarrow> string \<Rightarrow> error option"
  Login :: "Userinfo option \<Rightarrow> error option"

text \<open>The calls a function makes, in order, are returned with its result.\<close>

datatype call =
    CallOpen string
  | CallDecode
  | CallMkdirAll string
  | CallOpenFile string
  | CallEncode
  | CallUserSession
  | CallLoadX509KeyPair string string
  | CallNewClient
  | CallAcquireLocalTicket string
  | CallReadFile string
  | CallLoginExtensionByCertificate string string
  | CallLogin "Userinfo option"

type_synonym 'a io = "call list \<times> (error + 'a)"

definition ret :: "'a \<Rightarrow> 'a io" where
  "ret x = ([], Inr x)"

definition calling :: "call \<Rightarrow> error + 'a \<Rightarrow> 'a io" where
  "calling c r = ([c], r)"

definition status :: "error option \<Rightarrow> error + unit" where
  "status e = (case e of None \<Rightarrow> Inr () | Some err \<Rightarrow> Inl err)"

text \<open>Sequencing: an error ends the function (\<open>if err != nil { return ..., err }\<close>).\<close>

definition bind_io :: "'a io \<Rightarrow> ('a \<Rightarrow> 'b io) \<Rightarrow> 'b io" where
  "bind_io m f =
     (case m of
        (tr, Inl e) \<Rightarrow> (tr, Inl e)
      | (tr, Inr x) \<Rightarrow> (case f x of (tr', r) \<Rightarrow> (tr @ tr', r)))"

definition IsNotExist :: "error \<Rightarrow> bool" where
  "IsNotExist e = (case e of PathError b _ \<Rightarrow> b | _ \<Rightarrow> False)"

definition IsSoapFault :: "error \<Rightarrow> bool" where
  "IsSoapFault e = (case e of SoapFaultError _ \<Rightarrow> True | _ \<Rightarrow> False)"

definition IsFileNotFound :: "error \<Rightarrow> bool" where
  "IsFileNotFound e =
     (case e of TaskError FileNotFound \<Rightarrow> True | SoapFaultError FileNotFound \<Rightarrow> True | _ \<Rightarrow> False)"

definition filepath_Dir :: "string \<Rightarrow> string" where
  "filepath_Dir p = path_Dir p"

section \<open>Saving and restoring the session\<close>

definition attachRetries :: "RoundTripper \<Rightarrow> RoundTripper" where
  "attachRetries rt = Retry rt 3"

definition saveClient :: "world \<Rightarrow> ClientFlag \<Rightarrow> Client \<Rightarrow> unit io" where
  "saveClient w flag c =
     (if \<not> persist flag then ret ()
      else
        bind_io ([], sessionFile (HOME w) flag) (\<lambda>p.
        bind_io (calling (CallMkdirAll (filepath_Dir p)) (status (os_MkdirAll w (filepath_Dir p)))) (\<lambda>_.
        bind_io (calling (CallOpenFile p) (status (os_OpenFile w p))) (\<lambda>_.
        calling CallEncode (status (json_Encode w c))))))"

text \<open>
  \<open>restoreClient\<close> returns whether a client was decoded, and the client (the argument
  itself when nothing was decoded).
\<close>

definition restoreClient :: "world \<Rightarrow> ClientFlag \<Rightarrow> Client \<Rightarrow> (bool \<times> Client) io" where
  "restoreClient w flag c =
     (if \<not> persist flag then ret (False, c)
      else
        bind_io ([], sessionFile (HOME w) flag) (\<lambda>p.
        (case os_Open w p of
           Inl err \<Rightarrow>
             (if IsNotExist err then ([CallOpen p], Inr (False, c)) else ([CallOpen p], Inl err))
         | Inr f \<Rightarrow>
             bind_io (calling (CallOpen p) (Inr f)) (\<lambda>_.
             bind_io (calling CallDecode (json_Decode w f)) (\<lambda>c'. ret (True, c'))))))"

text \<open>\<open>loadClient\<close>: \<open>Inr None\<close> is the result \<open>nil, nil\<close>.\<close>

definition loadClient :: "world \<Rightarrow> ClientFlag \<Rightarrow> (Client option) io" where
  "loadClient w flag =
     bind_io (restoreClient w flag new_Client) (\<lambda>(ok, c).
       if \<not> ok \<or> \<not> Valid w c then ret None
       else
         (let c = c\<lparr>RoundTripper := attachRetries (RoundTripper c)\<rparr>
          in case UserSession w c of
               Inl err \<Rightarrow>
                 (if IsSoapFault err
                       \<and> (case err of SoapFaultError ManagedObjectNotFound \<Rightarrow> True | _ \<Rightarrow> False)
                  then ([CallUserSession], Inr None)
                  else ([CallUserSession], Inl err))
             | Inr u \<Rightarrow>
                 (if u = None then ([CallUserSession], Inr None)
                  else ([CallUserSession], Inr (Some c)))))"

section \<open>Fresh login\<close>

definition localTicket :: "world \<Rightarrow> (Userinfo option) io" where
  "localTicket w =
     bind_io (calling (CallAcquireLocalTicket (USER w)) (AcquireLocalTicket w (USER w))) (\<lambda>ticket.
     bind_io (calling (CallReadFile (PasswordFilePath ticket))
                (ioutil_ReadFile w (PasswordFilePath ticket))) (\<lambda>pw.
     ret (Some (url_UserPassword (UserName ticket) pw))))"

definition newClient :: "world \<Rightarrow> ClientFlag \<Rightarrow> Client io" where
  "newClient w flag =
     (case url flag of
        None \<Rightarrow> ([], Inl (runtimePanic ''nil pointer dereference''))
      | Some u0 \<Rightarrow>
          (let sc0 = \<lparr>sc_url = u0, sc_insecure = insecure flag, sc_certificate = None,
                      Namespace = [], Version = []\<rparr>;
               isTunnel = (cert flag \<noteq> [])
           in
           bind_io
             (if cert flag \<noteq> [] then
                bind_io (calling (CallLoadX509KeyPair (cert flag) (key flag))
                           (LoadX509KeyPair w (cert flag) (key flag)))
                  (\<lambda>crt. ret (sc0\<lparr>sc_certificate := Some crt\<rparr>))
              else ret sc0) (\<lambda>sc1.
           (let sc = sc1\<lparr>Namespace := vimNamespace flag, Version := vimVersion flag\<rparr>;
                rt = attachRetries (soapRoundTripper sc)
            in
            bind_io (calling CallNewClient (vim25_NewClient w rt)) (\<lambda>c0.
            (let c = c0\<lparr>Client_soap := Some sc, RoundTripper := rt\<rparr>
             in
             bind_io (if Username (User u0) = [] then localTicket w else ret (User u0)) (\<lambda>u.
             bind_io
               (if isTunnel then
                  calling (CallLoginExtensionByCertificate (Username u) [])
                    (status (LoginExtensionByCertificate w (Username u) []))
                else calling (CallLogin u) (status (Login w u))) (\<lambda>_.
             bind_io (saveClient w flag c) (\<lambda>_. ret c)))))))))"

text \<open>
  The calls of \<open>newClient\<close> before \<open>saveClient\<close>, with the client that is about to be
  saved: \<open>newClient\<close> is \<open>newClient_login\<close> followed by \<open>saveClient\<close>.
\<close>

definition newClient_login :: "world \<Rightarrow> ClientFlag \<Rightarrow> Client io" where
  "newClient_login w flag =
     (case url flag of
        None \<Rightarrow> ([], Inl (runtimePanic ''nil pointer dereference''))
      | Some u0 \<Rightarrow>
          (let sc0 = \<lparr>sc_url = u0, sc_insecure = insecure flag, sc_certificate = None,
                      Namespace = [], Version = []\<rparr>;
               isTunnel = (cert flag \<noteq> [])
           in
           bind_io
             (if cert flag \<noteq> [] then
                bind_io (calling (CallLoadX509KeyPair (cert flag) (key flag))
                           (LoadX509KeyPair w (cert flag) (key flag)))
                  (\<lambda>crt. ret (sc0\<lparr>sc_certificate := Some crt\<rparr>))
              else ret sc0) (\<lambda>sc1.
           (let sc = sc1\<lparr>Namespace := vimNamespace flag, Version := vimVersion flag\<rparr>;
                rt = attachRetries (soapRoundTripper sc)
            in
            bind_io (calling CallNewClient (vim25_NewClient w rt)) (\<lambda>c0.
            (let c = c0\<lparr>Client_soap := Some sc, RoundTripper := rt\<rparr>
             in
             bind_io (if Username (User u0) = [] then localTicket w else ret (User u0)) (\<lambda>u.
             bind_io
               (if isTunnel then
                  calling (CallLoginExtensionByCertificate (Username u) [])
                    (status (LoginExtensionByCertificate w (Username u) []))
                else calling (CallLogin u) (status (Login w u))) (\<lambda>_. ret c))))))))"

text \<open>The path of the session file of a flag whose URL is set.\<close>

definition session_path :: "world \<Rightarrow> ClientFlag \<Rightarrow> string" where
  "session_path w flag = (case sessionFile (HOME w) flag of Inl _ \<Rightarrow> [] | Inr p \<Rightarrow> p)"

section \<open>The version gate\<close>

definition HasSuffix :: "string \<Rightarrow> string \<Rightarrow> bool" where
  "HasSuffix s suffix =
     (length suffix \<le> length s \<and> drop (length s - length suffix) s = suffix)"

fun strings_Split :: "string \<Rightarrow> char \<Rightarrow> string list" where
  "strings_Split [] sep = [[]]"
| "strings_Split (c # s) sep =
     (if c = sep then [] # strings_Split s sep
      else (case strings_Split s sep of [] \<Rightarrow> [[c]] | p # ps \<Rightarrow> (c # p) # ps))"

definition isDigit :: "char \<Rightarrow> bool" where
  "isDigit c = (48 \<le> (of_char c :: nat) \<and> (of_char c :: nat) \<le> 57)"

definition Atoi :: "string \<Rightarrow> error + nat" where
  "Atoi s =
     (if s \<noteq> [] \<and> list_all isDigit s
      then Inr (foldl (\<lambda>n c. 10 * n + ((of_char c :: nat) - 48)) 0 s)
      else Inl (errorString (''strconv.ParseInt: parsing '' @ s @ '': invalid syntax'')))"

fun parse_parts :: "string list \<Rightarrow> error + nat list" where
  "parse_parts [] = Inr []"
| "parse_parts (p # ps) =
     (case Atoi p of
        Inl e \<Rightarrow> Inl e
      | Inr i \<Rightarrow> (case parse_parts ps of Inl e \<Rightarrow> Inl e | Inr v \<Rightarrow> Inr (i # v)))"

text \<open>
  Modelled from the spec: \<open>ParseVersion\<close> and \<open>version.Lte\<close>, of \<open>flags/version.go\<close>, are
  called by \<open>apiVersionValid\<close> and are not among these sources. The spec has both versions
  "parsed into comparable ordered version values", failing when one does not parse, and
  compares them with \<open>minVersion <= remoteVersion\<close>. Here a version is the list of the
  decimal numbers between its dots, and the order is the lexicographic one, in which a
  proper prefix is smaller.
\<close>

definition ParseVersion :: "string \<Rightarrow> error + nat list" where
  "ParseVersion s = parse_parts (strings_Split s CHR ''.'')"

fun Lte :: "nat list \<Rightarrow> nat list \<Rightarrow> bool" where
  "Lte [] u = True"
| "Lte (x # v) [] = False"
| "Lte (x # v) (y # u) = (if x = y then Lte v u else x < y)"

definition envMinAPIVersion :: string where
  "envMinAPIVersion = ''GOVC_MIN_API_VERSION''"

text \<open>\<open>apiVersionValid\<close>, on the API version of the client; \<open>None\<close> is the nil error.\<close>

definition apiVersionValid :: "Client \<Rightarrow> string \<Rightarrow> error option" where
  "apiVersionValid c minVersionString =
     (if minVersionString = ''-'' then None
      else
        (let apiVersion = ApiVersion c
         in if HasSuffix apiVersion ''.x'' then None
            else
              (case ParseVersion apiVersion of
                 Inl err \<Rightarrow> Some err
               | Inr realVersion \<Rightarrow>
                   (case ParseVersion minVersionString of
                      Inl err \<Rightarrow> Some err
                    | Inr minVersion \<Rightarrow>
                        (if \<not> Lte minVersion realVersion then
                           Some (errorString
                                  (''Require API version '' @ minVersionString
                                     @ '', connected to API version '' @ ApiVersion c
                                     @ '' (set '' @ envMinAPIVersion @ '' to override)''))
                         else None)))))"

section \<open>The client of a flag\<close>

text \<open>\<open>ClientFlag.Client\<close>: the result, and the flag with the client it now remembers.\<close>

definition ClientFlag_Client :: "world \<Rightarrow> ClientFlag \<Rightarrow> Client io \<times> ClientFlag" where
  "ClientFlag_Client w flag =
     (case client flag of
        Some c \<Rightarrow> (ret c, flag)
      | None \<Rightarrow>
          (let r =
                 bind_io (loadClient w flag) (\<lambda>l.
                 bind_io (case l of None \<Rightarrow> newClient w flag | Some c \<Rightarrow> ret c) (\<lambda>c.
                 bind_io ([], status (apiVersionValid c (minAPIVersion flag))) (\<lambda>_. ret c)))
           in case r of
                (tr, Inl e) \<Rightarrow> ((tr, Inl e), flag)
              | (tr, Inr c) \<Rightarrow> ((tr, Inr c), flag\<lparr>client := Some c\<rparr>)))"

section \<open>The retrying round tripper\<close>

text \<open>
  Modelled from the spec: \<open>vim25.Retry\<close> and \<open>vim25.TemporaryNetworkError\<close>, of
  \<open>vim25/retry.go\<close>, are called by \<open>attachRetries\<close> and are not among these sources. The
  spec has the wrapper call the transport it wraps, gives a logical call a budget of
  attempts (the argument of \<open>TemporaryNetworkError\<close>, one attempt and the retries), retries
  only after an error that is a temporary network error, never after a fault of the remote
  service, and surfaces the last error unchanged.

  \<open>net sc req k\<close> is the answer of the network to the \<open>k\<close>-th request that is sent to it,
  sent by the SOAP client \<open>sc\<close> for the request \<open>req\<close>. A round trip takes the number of
  requests sent so far and returns it updated with its result. \<open>retry_loop r call k\<close> calls
  the wrapped round trip \<open>call\<close> with \<open>r\<close> retries left. A call of a nil round tripper
  panics.
\<close>

definition TemporaryNetworkError :: "error \<Rightarrow> bool" where
  "TemporaryNetworkError e = (case e of NetError temporary _ \<Rightarrow> temporary | _ \<Rightarrow> False)"

fun retry_loop :: "nat \<Rightarrow> (nat \<Rightarrow> (error + 'r) \<times> nat) \<Rightarrow> nat \<Rightarrow> (error + 'r) \<times> nat" where
  "retry_loop 0 call k = call k"
| "retry_loop (Suc r) call k =
     (case call k of
        (Inr res, k') \<Rightarrow> (Inr res, k')
      | (Inl e, k') \<Rightarrow> (if TemporaryNetworkError e then retry_loop r call k' else (Inl e, k')))"

primrec RoundTrip ::
  "(soapClient \<Rightarrow> 'q \<Rightarrow> nat \<Rightarrow> error + 'r) \<Rightarrow> RoundTripper \<Rightarrow> 'q \<Rightarrow> nat \<Rightarrow> (error + 'r) \<times> nat"
where
  "RoundTrip net nilRoundTripper = (\<lambda>req k. (Inl (runtimePanic ''nil pointer dereference''), k))"
| "RoundTrip net (soapRoundTripper sc) = (\<lambda>req k. (net sc req (Suc k), Suc k))"
| "RoundTrip net (Retry rt n) = (\<lambda>req k. retry_loop (n - 1) (RoundTrip net rt req) k)"

section \<open>Listing a datastore path\<close>

text \<open>
  The search spec and the search results of the datastore browser, with the fields that
  \<open>ls.Run\<close> reads or writes, and the three calls of \<open>ls.ListPath\<close>.
\<close>

record SearchSpec =
  MatchPattern :: "string list"
  Details :: bool

record SearchResults =
  FolderPath :: string
  File :: "string list"

record 't browser =
  DatastorePath :: "string \<Rightarrow> error + string"
  SearchDatastore :: "string \<Rightarrow> SearchSpec \<Rightarrow> error + 't"
  WaitForResult :: "'t \<Rightarrow> error + SearchResults"

definition ListPath :: "'t browser \<Rightarrow> string \<Rightarrow> SearchSpec \<Rightarrow> error + SearchResults" where
  "ListPath b p spec =
     (case DatastorePath b p of
        Inl err \<Rightarrow> Inl err
      | Inr p' \<Rightarrow>
          (case SearchDatastore b p' spec of
             Inl err \<Rightarrow> Inl err
           | Inr task \<Rightarrow> WaitForResult b task))"

text \<open>
  The loop \<open>for i := 0; ; i++\<close> of \<open>ls.Run\<close> for one argument: \<open>Inr r\<close> is the result that
  is added to the output, \<open>Inl err\<close> the error that \<open>Run\<close> returns. The spec starts with
  the one pattern \<open>*\<close>; writing \<open>MatchPattern[0]\<close> of an empty slice panics.
\<close>

function ls_loop :: "'t browser \<Rightarrow> nat \<Rightarrow> string \<Rightarrow> SearchSpec \<Rightarrow> error + SearchResults" where
  "ls_loop b i arg spec =
     (case ListPath b arg spec of
        Inl err \<Rightarrow>
          (if i = 0 \<and> IsFileNotFound err then
             (if MatchPattern spec = [] then Inl (runtimePanic ''index out of range'')
              else ls_loop b (i + 1) (path_Dir arg)
                     (spec\<lparr>MatchPattern := (MatchPattern spec)[0 := path_Base arg]\<rparr>))
           else Inl err)
      | Inr r \<Rightarrow>
          (if i = 1 \<and> length (File r) = 0 then
             (if MatchPattern spec = [] then Inl (runtimePanic ''index out of range'')
              else Inl (errorString (''File '' @ FolderPath r @ ''/'' @ MatchPattern spec ! 0
                                       @ '' was not found'')))
           else Inr r))"
  by pat_completeness auto
termination
  by (relation "measure (\<lambda>(b, i, arg, spec). 1 - i)") auto

declare ls_loop.simps [simp del]

definition ls_arg :: "'t browser \<Rightarrow> bool \<Rightarrow> string \<Rightarrow> error + SearchResults" where
  "ls_arg b long arg = ls_loop b 0 arg \<lparr>MatchPattern = [''*''], Details = long\<rparr>"

section \<open>Example values\<close>

definition ex_url :: URL where
  "ex_url = \<lparr>Scheme = ''https'', Opaque = [], User = Some (url_UserPassword ''alice'' ''s3cret''),
             Host = ''vc.example.com'', Path = ''/sdk'', RawQuery = [], Fragment = []\<rparr>"

definition ex_flag :: ClientFlag where
  "ex_flag = \<lparr>url = Some ex_url, username = [], password = [], cert = [], key = [],
              insecure = False, persist = True, minAPIVersion = ''5.5'',
              vimNamespace = ''urn:vim25'', vimVersion = ''6.0'', client = None\<rparr>"

text \<open>A world in which every call succeeds and the cached session is live.\<close>

definition ex_client :: Client where
  "ex_client = \<lparr>Client_soap = None, RoundTripper = nilRoundTripper, ApiVersion = ''6.0''\<rparr>"

definition ex_world :: world where
  "ex_world =
     \<lparr>HOME = ''/home/u'', USER = ''root'',
      os_Open = (\<lambda>p. Inr ''{}''),
      json_Decode = (\<lambda>f. Inr ex_client),
      os_MkdirAll = (\<lambda>p. None),
      os_OpenFile = (\<lambda>p. None),
      json_Encode = (\<lambda>c. None),
      Valid = (\<lambda>c. True),
      UserSession = (\<lambda>c. Inr (Some ''session'')),
      LoadX509KeyPair = (\<lambda>c k. Inr ''pair''),
      vim25_NewClient = (\<lambda>rt. Inr ex_client),
      AcquireLocalTicket = (\<lambda>u. Inr \<lparr>UserName = ''vpxuser'', PasswordFilePath = ''/var/run/ticket''\<rparr>),
      ioutil_ReadFile = (\<lambda>p. Inr ''otp''),
      LoginExtensionByCertificate = (\<lambda>n k. None),
      Login = (\<lambda>u. None)\<rparr>"

text \<open>
  A flag with a certificate and a URL without a username (the user that \<open>soap.ParseURL\<close>
  gives a URL without credentials), and persistence switched off.
\<close>

definition ex_flag_cert :: ClientFlag where
  "ex_flag_cert =
     \<lparr>url = Some (ex_url\<lparr>User := Some (url_UserPassword [] [])\<rparr>), username = [], password = [],
      cert = ''client.crt'', key = ''client.key'', insecure = False, persist = False,
      minAPIVersion = ''5.5'', vimNamespace = ''urn:vim25'', vimVersion = ''6.0'', client = None\<rparr>"

text \<open>
  A datastore browser that does not find a directory for the pattern \<open>*\<close> and finds
  no file for any other pattern.
\<close>

definition ex_browser :: "nat browser" where
  "ex_browser =
     \<lparr>DatastorePath = (\<lambda>p. Inr (''[ds] '' @ p)),
      SearchDatastore = (\<lambda>p spec. if MatchPattern spec = [''*''] then Inl (TaskError FileNotFound) else Inr 0),
      WaitForResult = (\<lambda>t. Inr \<lparr>FolderPath = ''[ds] vm'', File = []\<rparr>)\<rparr>"

text \<open>
  Two flags that agree with \<open>ex_flag\<close> on scheme, host, path and the insecure flag: one
  with another username, one with a query.
\<close>

definition ex_flag_bob :: ClientFlag where
  "ex_flag_bob = ex_flag\<lparr>url := Some (ex_url\<lparr>User := Some (url_UserPassword ''bob'' ''s3cret'')\<rparr>)\<rparr>"

definition ex_flag_query :: ClientFlag where
  "ex_flag_query = ex_flag\<lparr>url := Some (ex_url\<lparr>RawQuery := ''x=1''\<rparr>)\<rparr>"

text \<open>The SOAP client that \<open>newClient\<close> builds for \<open>ex_flag\<close>.\<close>

definition ex_sc :: soapClient where
  "ex_sc = \<lparr>sc_url = ex_url, sc_insecure = False, sc_certificate = None,
            Namespace = ''urn:vim25'', Version = ''6.0''\<rparr>"

section \<open>Evaluation rules\<close>

text \<open>Unfolding rules that let the simplifier run the counted loops on numerals.\<close>

lemma sha1_rounds_numeral:
  "sha1_rounds (numeral k) i w (a, b, c, d, e) =
     sha1_rounds (pred_numeral k) (i + 1)
       (tl w @ [RotateLeft32 (w ! 13 XOR w ! 8 XOR w ! 2 XOR w ! 0) 1])
       (add32 (add32 (add32 (add32 (RotateLeft32 a 5) (sha1_f i b c d)) e) (w ! 0)) (sha1_K i),
        a, RotateLeft32 b 30, c, d)"
  by (simp add: numeral_eq_Suc)

lemma replicate_numeral_unfold: "replicate (numeral k) x = x # replicate (pred_numeral k) x"
  by (simp add: numeral_eq_Suc)

lemmas sha1_eval = sha1_Sum_def sha1_blocks.simps sha1_block_def sha1_pad_def Let_def sha1_init_def
  sha1_f_def sha1_K_def RotateLeft32_def Sprintf_040x_def hexdigit_def put32_def bytes_of_def
  sha1_rounds_numeral replicate_numeral_unfold add32_def not32_def byte_of_def

lemmas url_eval = URL_String_def Userinfo_String_def EscapedPath_def shouldEscape_def isAlnum_def
  upperhex_def url_User_def url_UserPassword_def Username_def Password_def Let_def

section \<open>Properties of Process\<close>

lemma override_commute:
  "override_username name (override_password pw u) = override_password pw (override_username name u)"
  by (cases "User u")
     (simp_all add: override_username_def override_password_def Username_def Password_def
        url_User_def url_UserPassword_def)



section \<open>Properties of Register\<close>

text \<open>
  C7, as stated, fails: the value \<open>0\<close> of \<open>GOVC_PERSIST_SESSION\<close> is not one of the
  tokens \<open>1\<close> and \<open>true\<close>, and the persist default is false for it, not true.
\<close>

theorem Register_persist_counterexample:
  "ToLower ''0'' \<noteq> ''1'' \<and> ToLower ''0'' \<noteq> ''true'' \<and> Register_persist ''0'' = False"
  by (simp add: Register_persist_def ToLower_def lower_char_def)

text \<open>
  C7, amended. The insecure default is true exactly for the values that are \<open>1\<close> or
  \<open>true\<close> in lower case. The persist default is false exactly for the values that are
  \<open>0\<close> or \<open>false\<close> in lower case, and true for every other value, among them the unset
  variable and the values for which the insecure default is true. Both depend on the value
  in lower case only. The minimum API version is \<open>5.5\<close> for the unset variable and the
  value itself otherwise.
\<close>

theorem Register_defaults:
  "Register_insecure env = (ToLower env \<in> {''1'', ''true''})
   \<and> Register_persist env = (ToLower env \<notin> {''0'', ''false''})
   \<and> Register_insecure [] = False
   \<and> Register_persist [] = True
   \<and> (Register_insecure env \<longrightarrow> Register_persist env)
   \<and> (ToLower a = ToLower b \<longrightarrow>
         Register_insecure a = Register_insecure b \<and> Register_persist a = Register_persist b)
   \<and> Register_minAPIVersion [] = ''5.5''
   \<and> (env \<noteq> [] \<longrightarrow> Register_minAPIVersion env = env)"
  by (auto simp add: Register_insecure_def Register_persist_def Register_minAPIVersion_def
        ToLower_def)

theorem Register_defaults_witness:
  "Register_insecure ''True'' \<and> Register_persist ''True''
   \<and> ToLower ''TRUE'' = ToLower ''true''
   \<and> Register_insecure ''TRUE'' = Register_insecure ''true''
   \<and> Register_persist ''TRUE'' = Register_persist ''true''
   \<and> ''True'' \<noteq> [] \<and> Register_minAPIVersion ''True'' = ''True''"
  using Register_defaults [of "''True''" "''TRUE''" "''true''"]
  by (simp add: ToLower_def lower_char_def char_of_eq_iff)

section \<open>Properties of the session cache\<close>

lemma sessionFile_Some:
  "url flag = Some u \<Longrightarrow> sessionFile (HOME w) flag = Inr (session_path w flag)"
  by (simp add: session_path_def sessionFile_def URLWithoutPassword_def Let_def)

lemmas io_defs = bind_io_def ret_def calling_def status_def

text \<open>
  C3. \<open>loadClient\<close> returns \<open>nil, nil\<close> when the persist flag is false and when the
  session file does not exist; another error of \<open>os.Open\<close> and an error of the JSON
  decoder are returned. For a decoded, valid client \<open>c\<close>, which gets the retrying round
  tripper before the user session is asked for: a \<open>ManagedObjectNotFound\<close> SOAP fault
  gives \<open>nil, nil\<close>, every other error is returned, no user session gives \<open>nil, nil\<close>, and
  a user session gives the client.
\<close>

theorem loadClient_outcomes:
  "(\<not> persist flag \<longrightarrow> loadClient w flag = ([], Inr None))
   \<and> (persist flag \<and> url flag = Some u \<and> p = session_path w flag \<longrightarrow>
        (os_Open w p = Inl err \<and> IsNotExist err \<longrightarrow> snd (loadClient w flag) = Inr None)
      \<and> (os_Open w p = Inl err \<and> \<not> IsNotExist err \<longrightarrow> snd (loadClient w flag) = Inl err)
      \<and> (os_Open w p = Inr f \<and> json_Decode w f = Inl err \<longrightarrow> snd (loadClient w flag) = Inl err)
      \<and> (os_Open w p = Inr f \<and> json_Decode w f = Inr c \<and> Valid w c
           \<and> c' = c\<lparr>RoundTripper := attachRetries (RoundTripper c)\<rparr> \<longrightarrow>
            (UserSession w c' = Inl (SoapFaultError ManagedObjectNotFound) \<longrightarrow>
               snd (loadClient w flag) = Inr None)
          \<and> (UserSession w c' = Inl err \<and> err \<noteq> SoapFaultError ManagedObjectNotFound \<longrightarrow>
               snd (loadClient w flag) = Inl err)
          \<and> (UserSession w c' = Inr None \<longrightarrow> snd (loadClient w flag) = Inr None)
          \<and> (UserSession w c' = Inr (Some s) \<longrightarrow> snd (loadClient w flag) = Inr (Some c'))))"
  by (auto simp add: loadClient_def restoreClient_def sessionFile_Some io_defs IsSoapFault_def
        Let_def split: error.splits VimFault.splits)

theorem loadClient_outcomes_witness:
  "persist ex_flag \<and> url ex_flag = Some ex_url
   \<and> os_Open ex_world (session_path ex_world ex_flag) = Inr ''{}''
   \<and> json_Decode ex_world ''{}'' = Inr ex_client \<and> Valid ex_world ex_client
   \<and> UserSession ex_world (ex_client\<lparr>RoundTripper := attachRetries (RoundTripper ex_client)\<rparr>)
       = Inr (Some ''session'')
   \<and> snd (loadClient ex_world ex_flag)
       = Inr (Some (ex_client\<lparr>RoundTripper := attachRetries (RoundTripper ex_client)\<rparr>))"
  using loadClient_outcomes [of ex_flag ex_world ex_url "session_path ex_world ex_flag" "errorString []"
      "''{}''" ex_client "ex_client\<lparr>RoundTripper := attachRetries (RoundTripper ex_client)\<rparr>"
      "''session''"]
  by (simp add: ex_flag_def ex_world_def)

text \<open>
  C10. When the session file is read and decoded and the decoded client is not valid,
  \<open>loadClient\<close> returns \<open>nil, nil\<close> after the two calls that read the file, without asking
  the service for the user session; \<open>ClientFlag.Client\<close> then goes on with \<open>newClient\<close>.
\<close>

theorem loadClient_invalid:
  "persist flag \<and> url flag = Some u \<and> p = session_path w flag
   \<and> os_Open w p = Inr f \<and> json_Decode w f = Inr c \<and> \<not> Valid w c \<longrightarrow>
     loadClient w flag = ([CallOpen p, CallDecode], Inr None)
     \<and> CallUserSession \<notin> set (fst (loadClient w flag))
     \<and> (client flag = None \<longrightarrow>
          fst (ClientFlag_Client w flag)
            = bind_io ([CallOpen p, CallDecode], Inr ()) (\<lambda>_.
              bind_io (newClient w flag) (\<lambda>c.
              bind_io ([], status (apiVersionValid c (minAPIVersion flag))) (\<lambda>_. ret c))))"
  by (auto simp add: loadClient_def restoreClient_def sessionFile_Some ClientFlag_Client_def
        io_defs Let_def split: prod.splits sum.splits option.splits)

theorem loadClient_invalid_witness:
  "persist ex_flag \<and> url ex_flag = Some ex_url
   \<and> os_Open (ex_world\<lparr>Valid := (\<lambda>c. False)\<rparr>) (session_path ex_world ex_flag) = Inr ''{}''
   \<and> json_Decode (ex_world\<lparr>Valid := (\<lambda>c. False)\<rparr>) ''{}'' = Inr ex_client
   \<and> \<not> Valid (ex_world\<lparr>Valid := (\<lambda>c. False)\<rparr>) ex_client
   \<and> loadClient (ex_world\<lparr>Valid := (\<lambda>c. False)\<rparr>) ex_flag
       = ([CallOpen (session_path ex_world ex_flag), CallDecode], Inr None)"
  using loadClient_invalid [of ex_flag ex_url "session_path ex_world ex_flag"
      "ex_world\<lparr>Valid := (\<lambda>c. False)\<rparr>" "''{}''" ex_client]
  by (simp add: ex_flag_def ex_world_def session_path_def)

section \<open>Properties of fresh login\<close>

lemma newClient_split:
  "newClient w flag = bind_io (newClient_login w flag) (\<lambda>c. bind_io (saveClient w flag c) (\<lambda>_. ret c))"
  by (simp add: newClient_def newClient_login_def io_defs Let_def
        split: option.splits prod.splits sum.splits)

text \<open>
  C8. \<open>saveClient\<close> does nothing and succeeds when the persist flag is false. When it is
  true, the first failure among \<open>os.MkdirAll\<close>, \<open>os.OpenFile\<close> and the JSON encoder is
  the result of \<open>saveClient\<close>; and when \<open>newClient\<close> has logged in with a client and
  \<open>saveClient\<close> fails for it, \<open>newClient\<close> returns that error and no client. A client that
  \<open>newClient\<close> returns has been saved.
\<close>

theorem saveClient_fatal:
  "(\<not> persist flag \<longrightarrow> saveClient w flag c = ([], Inr ()))
   \<and> (persist flag \<and> url flag = Some u \<and> p = session_path w flag \<longrightarrow>
        (os_MkdirAll w (filepath_Dir p) = Some e \<longrightarrow> snd (saveClient w flag c) = Inl e)
      \<and> (os_MkdirAll w (filepath_Dir p) = None \<and> os_OpenFile w p = Some e \<longrightarrow>
           snd (saveClient w flag c) = Inl e)
      \<and> (os_MkdirAll w (filepath_Dir p) = None \<and> os_OpenFile w p = None
           \<and> json_Encode w c = Some e \<longrightarrow> snd (saveClient w flag c) = Inl e)
      \<and> (os_MkdirAll w (filepath_Dir p) = None \<and> os_OpenFile w p = None
           \<and> json_Encode w c = None \<longrightarrow> snd (saveClient w flag c) = Inr ()))
   \<and> (newClient_login w flag = (tr, Inr c) \<and> saveClient w flag c = (tr', Inl e) \<longrightarrow>
        newClient w flag = (tr @ tr', Inl e))
   \<and> (snd (newClient w flag) = Inr c \<longrightarrow> snd (saveClient w flag c) = Inr ())"
  by (auto simp add: newClient_split saveClient_def sessionFile_Some io_defs
        split: prod.splits sum.splits option.splits)

theorem saveClient_fatal_witness:
  "persist ex_flag \<and> url ex_flag = Some ex_url
   \<and> os_MkdirAll (ex_world\<lparr>os_MkdirAll := (\<lambda>p. Some (PathError False ''mkdir''))\<rparr>)
        (filepath_Dir (session_path ex_world ex_flag)) = Some (PathError False ''mkdir'')
   \<and> newClient_login (ex_world\<lparr>os_MkdirAll := (\<lambda>p. Some (PathError False ''mkdir''))\<rparr>) ex_flag
       = ([CallNewClient, CallLogin (User ex_url)],
          Inr (ex_client\<lparr>Client_soap :=
                 Some \<lparr>sc_url = ex_url, sc_insecure = False, sc_certificate = None,
                       Namespace = ''urn:vim25'', Version = ''6.0''\<rparr>,
               RoundTripper :=
                 attachRetries (soapRoundTripper
                   \<lparr>sc_url = ex_url, sc_insecure = False, sc_certificate = None,
                    Namespace = ''urn:vim25'', Version = ''6.0''\<rparr>)\<rparr>))
   \<and> newClient (ex_world\<lparr>os_MkdirAll := (\<lambda>p. Some (PathError False ''mkdir''))\<rparr>) ex_flag
       = ([CallNewClient, CallLogin (User ex_url),
           CallMkdirAll (filepath_Dir (session_path ex_world ex_flag))],
          Inl (PathError False ''mkdir''))"
  using saveClient_fatal [of ex_flag "ex_world\<lparr>os_MkdirAll := (\<lambda>p. Some (PathError False ''mkdir''))\<rparr>"
      "ex_client\<lparr>Client_soap :=
                 Some \<lparr>sc_url = ex_url, sc_insecure = False, sc_certificate = None,
                       Namespace = ''urn:vim25'', Version = ''6.0''\<rparr>,
               RoundTripper :=
                 attachRetries (soapRoundTripper
                   \<lparr>sc_url = ex_url, sc_insecure = False, sc_certificate = None,
                    Namespace = ''urn:vim25'', Version = ''6.0''\<rparr>)\<rparr>"
      ex_url "session_path ex_world ex_flag" "PathError False ''mkdir''"
      "[CallNewClient, CallLogin (User ex_url)]"
      "[CallMkdirAll (filepath_Dir (session_path ex_world ex_flag))]"]
  by (simp add: ex_flag_def ex_world_def ex_url_def session_path_def newClient_login_def
        saveClient_def sessionFile_def URLWithoutPassword_def io_defs Let_def Username_def
        url_UserPassword_def)

section \<open>The login calls of newClient\<close>

lemma saveClient_calls:
  "x \<in> set (fst (saveClient w flag c)) \<Longrightarrow>
     (\<exists>p. x = CallMkdirAll p) \<or> (\<exists>p. x = CallOpenFile p) \<or> x = CallEncode"
  by (auto simp add: saveClient_def io_defs split: if_splits sum.splits option.splits prod.splits)

lemma newClient_calls:
  assumes "x \<in> set (fst (newClient w flag))"
  shows "x \<in> set (fst (newClient_login w flag))
         \<or> (\<exists>p. x = CallMkdirAll p) \<or> (\<exists>p. x = CallOpenFile p) \<or> x = CallEncode"
proof (cases "newClient_login w flag")
  case (Pair tr r)
  show ?thesis
  proof (cases r)
    case (Inl e)
    with Pair assms show ?thesis
      by (simp add: newClient_split bind_io_def)
  next
    case (Inr c)
    obtain tr' r' where S: "saveClient w flag c = (tr', r')"
      by (cases "saveClient w flag c")
    with Pair Inr assms have "x \<in> set tr \<or> x \<in> set tr'"
      by (auto simp add: newClient_split bind_io_def ret_def split: sum.splits)
    then show ?thesis
      using saveClient_calls [of x w flag c] Pair S by auto
  qed
qed

lemma login_trace:
  "url flag = Some u \<Longrightarrow> newClient_login w flag = (tr, r) \<Longrightarrow>
     (CallLogin x \<in> set tr \<longrightarrow> cert flag = [])
   \<and> (CallLoginExtensionByCertificate n k \<in> set tr \<longrightarrow> cert flag \<noteq> [])
   \<and> (CallAcquireLocalTicket x' \<in> set tr \<longrightarrow> Username (User u) = [])"
  apply (cases "cert flag = []"; cases "Username (User u) = []")
  apply (simp_all add: newClient_login_def localTicket_def io_defs Let_def split: sum.splits option.splits prod.splits)
  apply auto
  done


lemma login_success_trace:
  "url flag = Some u \<Longrightarrow> newClient_login w flag = (tr, Inr c) \<Longrightarrow>
        (cert flag \<noteq> [] \<and> Username (User u) \<noteq> [] \<longrightarrow>
           tr = [CallLoadX509KeyPair (cert flag) (key flag), CallNewClient,
                 CallLoginExtensionByCertificate (Username (User u)) []])
      \<and> (cert flag = [] \<and> Username (User u) \<noteq> [] \<longrightarrow>
           tr = [CallNewClient, CallLogin (User u)])
      \<and> (AcquireLocalTicket w (USER w) = Inr t \<and> ioutil_ReadFile w (PasswordFilePath t) = Inr pw \<longrightarrow>
           (cert flag = [] \<and> Username (User u) = [] \<longrightarrow>
              tr = [CallNewClient, CallAcquireLocalTicket (USER w), CallReadFile (PasswordFilePath t),
                    CallLogin (Some (url_UserPassword (UserName t) pw))])
         \<and> (cert flag \<noteq> [] \<and> Username (User u) = [] \<longrightarrow>
              tr = [CallLoadX509KeyPair (cert flag) (key flag), CallNewClient,
                    CallAcquireLocalTicket (USER w), CallReadFile (PasswordFilePath t),
                    CallLoginExtensionByCertificate (UserName t) []]))"
  apply (cases "cert flag = []"; cases "Username (User u) = []")
  apply (simp_all add: newClient_login_def localTicket_def io_defs Let_def Username_def url_UserPassword_def
           split: sum.splits option.splits prod.splits)
  apply auto
  done

text \<open>
  C2, as stated, fails: with a certificate configured and no username in the URL,
  \<open>newClient\<close> acquires a local ticket and reads its password file, and then logs in by
  certificate with the ticket's user name. A step of the local-ticket flow runs in the
  certificate flow.
\<close>

theorem newClient_flows_counterexample:
  "cert ex_flag_cert = ''client.crt''
   \<and> newClient ex_world ex_flag_cert
       = ([CallLoadX509KeyPair ''client.crt'' ''client.key'', CallNewClient,
           CallAcquireLocalTicket ''root'', CallReadFile ''/var/run/ticket'',
           CallLoginExtensionByCertificate ''vpxuser'' []],
          Inr (ex_client\<lparr>Client_soap :=
                 Some \<lparr>sc_url = ex_url\<lparr>User := Some (url_UserPassword [] [])\<rparr>,
                       sc_insecure = False, sc_certificate = Some ''pair'',
                       Namespace = ''urn:vim25'', Version = ''6.0''\<rparr>,
               RoundTripper :=
                 attachRetries (soapRoundTripper
                   \<lparr>sc_url = ex_url\<lparr>User := Some (url_UserPassword [] [])\<rparr>,
                    sc_insecure = False, sc_certificate = Some ''pair'',
                    Namespace = ''urn:vim25'', Version = ''6.0''\<rparr>)\<rparr>))"
  by (simp add: ex_flag_cert_def ex_world_def ex_url_def newClient_def saveClient_def
        localTicket_def io_defs Let_def Username_def url_UserPassword_def)

text \<open>
  C2, amended. The login call of \<open>newClient\<close> is chosen by the certificate path alone:
  \<open>LoginExtensionByCertificate\<close> when one is configured, \<open>Login\<close> otherwise, never both.
  The local ticket is acquired exactly when the URL carries no username, with or without
  a certificate, and its user then logs in by either call. So a successful login makes one
  of four sequences of calls.
\<close>

theorem newClient_flows:
  "url flag = Some u \<longrightarrow>
     (CallLogin x \<in> set (fst (newClient w flag)) \<longrightarrow> cert flag = [])
   \<and> (CallLoginExtensionByCertificate n k \<in> set (fst (newClient w flag)) \<longrightarrow> cert flag \<noteq> [])
   \<and> (CallAcquireLocalTicket x' \<in> set (fst (newClient w flag)) \<longrightarrow> Username (User u) = [])
   \<and> (newClient_login w flag = (tr, Inr c) \<longrightarrow>
        (cert flag \<noteq> [] \<and> Username (User u) \<noteq> [] \<longrightarrow>
           tr = [CallLoadX509KeyPair (cert flag) (key flag), CallNewClient,
                 CallLoginExtensionByCertificate (Username (User u)) []])
      \<and> (cert flag = [] \<and> Username (User u) \<noteq> [] \<longrightarrow>
           tr = [CallNewClient, CallLogin (User u)])
      \<and> (AcquireLocalTicket w (USER w) = Inr t \<and> ioutil_ReadFile w (PasswordFilePath t) = Inr pw \<longrightarrow>
           (cert flag = [] \<and> Username (User u) = [] \<longrightarrow>
              tr = [CallNewClient, CallAcquireLocalTicket (USER w), CallReadFile (PasswordFilePath t),
                    CallLogin (Some (url_UserPassword (UserName t) pw))])
         \<and> (cert flag \<noteq> [] \<and> Username (User u) = [] \<longrightarrow>
              tr = [CallLoadX509KeyPair (cert flag) (key flag), CallNewClient,
                    CallAcquireLocalTicket (USER w), CallReadFile (PasswordFilePath t),
                    CallLoginExtensionByCertificate (UserName t) []])))"
proof (intro impI conjI)
  assume U: "url flag = Some u"
  obtain tr0 r0 where L: "newClient_login w flag = (tr0, r0)"
    by (cases "newClient_login w flag")
  note T = login_trace [OF U L]
  show "cert flag = []" if "CallLogin x \<in> set (fst (newClient w flag))"
    using newClient_calls [OF that] T [of x] L by auto
  show "cert flag \<noteq> []" if "CallLoginExtensionByCertificate n k \<in> set (fst (newClient w flag))"
    using newClient_calls [OF that] T [of _ n k] L by auto
  show "Username (User u) = []" if "CallAcquireLocalTicket x' \<in> set (fst (newClient w flag))"
    using newClient_calls [OF that] T [of _ _ _ x'] L by auto
qed (use login_success_trace in blast)+

theorem newClient_flows_witness:
  "url ex_flag = Some ex_url
   \<and> CallLogin (User ex_url) \<in> set (fst (newClient ex_world ex_flag)) \<and> cert ex_flag = []
   \<and> Username (User ex_url) \<noteq> []
   \<and> newClient_login ex_world ex_flag
       = ([CallNewClient, CallLogin (User ex_url)],
          Inr (ex_client\<lparr>Client_soap :=
                 Some \<lparr>sc_url = ex_url, sc_insecure = False, sc_certificate = None,
                       Namespace = ''urn:vim25'', Version = ''6.0''\<rparr>,
               RoundTripper :=
                 attachRetries (soapRoundTripper
                   \<lparr>sc_url = ex_url, sc_insecure = False, sc_certificate = None,
                    Namespace = ''urn:vim25'', Version = ''6.0''\<rparr>)\<rparr>))"
  using newClient_flows [where flag = ex_flag and u = ex_url and x = "User ex_url" and w = ex_world
      and tr = "[CallNewClient, CallLogin (User ex_url)]"]
  by (simp add: ex_flag_def ex_world_def ex_url_def newClient_def newClient_login_def
        saveClient_def sessionFile_def URLWithoutPassword_def io_defs Let_def Username_def
        url_UserPassword_def)

section \<open>Properties of the version gate\<close>

lemma HasSuffix_x_61: "HasSuffix ''6.1.x'' ''.x''"
  by (simp add: HasSuffix_def)

lemma ParseVersion_60: "ParseVersion ''6.0'' = Inr [6, 0]"
  by (simp add: ParseVersion_def Atoi_def isDigit_def)

lemma ParseVersion_55: "ParseVersion ''5.5'' = Inr [5, 5]"
  by (simp add: ParseVersion_def Atoi_def isDigit_def)

lemma ParseVersion_50: "ParseVersion ''5.0'' = Inr [5, 0]"
  by (simp add: ParseVersion_def Atoi_def isDigit_def)

text \<open>
  C4. \<open>apiVersionValid\<close> succeeds for the minimum \<open>-\<close>, and for a remote version that
  ends in \<open>.x\<close>. Otherwise it returns the error of parsing the remote version, else the
  error of parsing the minimum, and else succeeds exactly when the minimum is less than or
  equal to the remote version; the error then names the two versions and
  \<open>GOVC_MIN_API_VERSION\<close>. Remote 6.0 passes the minimum 5.5, remote 5.0 does not, and
  remote 6.1.x passes the minimum 9.9.
\<close>

theorem apiVersionValid_gate:
  "apiVersionValid c ''-'' = None
   \<and> (HasSuffix (ApiVersion c) ''.x'' \<longrightarrow> apiVersionValid c m = None)
   \<and> (m \<noteq> ''-'' \<and> \<not> HasSuffix (ApiVersion c) ''.x'' \<longrightarrow>
        (ParseVersion (ApiVersion c) = Inl e \<longrightarrow> apiVersionValid c m = Some e)
      \<and> (ParseVersion (ApiVersion c) = Inr rv \<and> ParseVersion m = Inl e \<longrightarrow>
           apiVersionValid c m = Some e)
      \<and> (ParseVersion (ApiVersion c) = Inr rv \<and> ParseVersion m = Inr mv \<longrightarrow>
           (apiVersionValid c m = None) = Lte mv rv
         \<and> (\<not> Lte mv rv \<longrightarrow>
              apiVersionValid c m
                = Some (errorString (''Require API version '' @ m @ '', connected to API version ''
                                       @ ApiVersion c @ '' (set GOVC_MIN_API_VERSION to override)'')))))
   \<and> apiVersionValid (c\<lparr>ApiVersion := ''6.0''\<rparr>) ''5.5'' = None
   \<and> apiVersionValid (c\<lparr>ApiVersion := ''5.0''\<rparr>) ''5.5''
       = Some (errorString ''Require API version 5.5, connected to API version 5.0 (set GOVC_MIN_API_VERSION to override)'')
   \<and> apiVersionValid (c\<lparr>ApiVersion := ''6.1.x''\<rparr>) ''9.9'' = None"
  by (simp add: apiVersionValid_def envMinAPIVersion_def Let_def HasSuffix_x_61 ParseVersion_60
        ParseVersion_55 ParseVersion_50)
     (simp add: HasSuffix_def)

theorem apiVersionValid_gate_witness:
  "''5.5'' \<noteq> ''-'' \<and> \<not> HasSuffix (ApiVersion ex_client) ''.x''
   \<and> ParseVersion (ApiVersion ex_client) = Inr [6, 0] \<and> ParseVersion ''5.5'' = Inr [5, 5]
   \<and> Lte [5, 5] [6, 0] \<and> apiVersionValid ex_client ''5.5'' = None
   \<and> HasSuffix (ApiVersion (ex_client\<lparr>ApiVersion := ''6.1.x''\<rparr>)) ''.x''
   \<and> apiVersionValid (ex_client\<lparr>ApiVersion := ''6.1.x''\<rparr>) ''9.9'' = None"
  using apiVersionValid_gate [of ex_client "''5.5''" "errorString []" "[6, 0]" "[5, 5]"]
    apiVersionValid_gate [of "ex_client\<lparr>ApiVersion := ''6.1.x''\<rparr>" "''9.9''"]
  by (simp add: ex_client_def ParseVersion_60 ParseVersion_55 HasSuffix_def)

section \<open>Properties of the retrying round tripper\<close>

lemma retry_loop_three:
  "retry_loop 2 call k =
     (case call k of
        (Inr res, k1) \<Rightarrow> (Inr res, k1)
      | (Inl e1, k1) \<Rightarrow>
          (if \<not> TemporaryNetworkError e1 then (Inl e1, k1)
           else (case call k1 of
                   (Inr res, k2) \<Rightarrow> (Inr res, k2)
                 | (Inl e2, k2) \<Rightarrow>
                     (if \<not> TemporaryNetworkError e2 then (Inl e2, k2) else call k2))))"
  by (simp add: numeral_2_eq_2 split: prod.splits sum.splits)

text \<open>
  C6. A call through the round tripper of \<open>attachRetries\<close> calls the wrapped round tripper
  once, a second time when the first call met a temporary network error, and a third time
  when the second did too; the result is that of the last call, so an error that is not a
  temporary network error is returned at the attempt that met it, the first, the second
  or the third, and a fault of the remote service is never a temporary network error. On
  a SOAP client that is between one and three requests: two temporary network errors and
  then an answer give the answer after three requests, and three temporary network errors
  give the third error, unchanged, after three requests.
\<close>

theorem attachRetries_budget:
  "RoundTrip net (attachRetries rt) req k =
     (case RoundTrip net rt req k of
        (Inr res, k1) \<Rightarrow> (Inr res, k1)
      | (Inl e1, k1) \<Rightarrow>
          (if \<not> TemporaryNetworkError e1 then (Inl e1, k1)
           else (case RoundTrip net rt req k1 of
                   (Inr res, k2) \<Rightarrow> (Inr res, k2)
                 | (Inl e2, k2) \<Rightarrow>
                     (if \<not> TemporaryNetworkError e2 then (Inl e2, k2)
                      else RoundTrip net rt req k2))))
   \<and> \<not> TemporaryNetworkError (SoapFaultError f)
   \<and> k + 1 \<le> snd (RoundTrip net (attachRetries (soapRoundTripper sc)) req k)
   \<and> snd (RoundTrip net (attachRetries (soapRoundTripper sc)) req k) \<le> k + 3
   \<and> (net sc req (k + 1) = Inr res \<longrightarrow>
        RoundTrip net (attachRetries (soapRoundTripper sc)) req k = (Inr res, k + 1))
   \<and> (net sc req (k + 1) = Inl e \<and> \<not> TemporaryNetworkError e \<longrightarrow>
        RoundTrip net (attachRetries (soapRoundTripper sc)) req k = (Inl e, k + 1))
   \<and> (net sc req (k + 1) = Inl e1 \<and> TemporaryNetworkError e1 \<longrightarrow>
        (net sc req (k + 2) = Inr res \<longrightarrow>
           RoundTrip net (attachRetries (soapRoundTripper sc)) req k = (Inr res, k + 2))
      \<and> (net sc req (k + 2) = Inl e \<and> \<not> TemporaryNetworkError e \<longrightarrow>
           RoundTrip net (attachRetries (soapRoundTripper sc)) req k = (Inl e, k + 2))
      \<and> (net sc req (k + 2) = Inl e2 \<and> TemporaryNetworkError e2 \<longrightarrow>
           (net sc req (k + 3) = Inr res \<longrightarrow>
              RoundTrip net (attachRetries (soapRoundTripper sc)) req k = (Inr res, k + 3))
         \<and> (net sc req (k + 3) = Inl e3 \<longrightarrow>
              RoundTrip net (attachRetries (soapRoundTripper sc)) req k = (Inl e3, k + 3))))"
proof -
  have three: "RoundTrip net (attachRetries rt') req k = retry_loop 2 (RoundTrip net rt' req) k" for rt'
    by (simp add: attachRetries_def)
  have a3: "k + 3 = Suc (Suc (Suc k))"
    by simp
  have fault: "\<not> TemporaryNetworkError (SoapFaultError f)"
    by (simp add: TemporaryNetworkError_def)
  show ?thesis
    unfolding three retry_loop_three
    by (cases "net sc req (Suc k)"; cases "net sc req (Suc (Suc k))"; cases "net sc req (Suc (Suc (Suc k)))")
       (auto simp add: fault a3)
qed

theorem attachRetries_budget_witness:
  "TemporaryNetworkError (NetError True ''reset'')
   \<and> \<not> TemporaryNetworkError (SoapFaultError ManagedObjectNotFound)
   \<and> RoundTrip (\<lambda>sc req k. if k < 3 then Inl (NetError True ''reset'') else Inr ''ok'')
        (attachRetries (soapRoundTripper ex_sc)) ''UserSession'' 0 = (Inr ''ok'', 3)
   \<and> RoundTrip (\<lambda>sc req k. Inl (NetError True ''reset''))
        (attachRetries (soapRoundTripper ex_sc)) ''UserSession'' 0
       = (Inl (NetError True ''reset'') :: error + string, 3)
   \<and> RoundTrip (\<lambda>sc req k. if k < 2 then Inl (NetError True ''reset'')
                         else Inl (SoapFaultError ManagedObjectNotFound))
        (attachRetries (soapRoundTripper ex_sc)) ''UserSession'' 0
       = (Inl (SoapFaultError ManagedObjectNotFound) :: error + string, 2)"
  using attachRetries_budget [where net = "\<lambda>sc req k. if k < 3 then Inl (NetError True ''reset'') else Inr ''ok''"
      and sc = ex_sc and req = "''UserSession''" and k = 0 and ?e1.0 = "NetError True ''reset''"
      and ?e2.0 = "NetError True ''reset''" and res = "''ok''"]
    attachRetries_budget [where net = "\<lambda>sc req k. Inl (NetError True ''reset'') :: error + string"
      and sc = ex_sc and req = "''UserSession''" and k = 0 and ?e1.0 = "NetError True ''reset''"
      and ?e2.0 = "NetError True ''reset''" and ?e3.0 = "NetError True ''reset''"]
    attachRetries_budget [where net = "\<lambda>sc req k. if k < 2 then Inl (NetError True ''reset'')
                         else Inl (SoapFaultError ManagedObjectNotFound) :: error + string"
      and sc = ex_sc and req = "''UserSession''" and k = 0 and ?e1.0 = "NetError True ''reset''"
      and e = "SoapFaultError ManagedObjectNotFound"]
  by (simp add: TemporaryNetworkError_def)

section \<open>Properties of the datastore listing\<close>

text \<open>
  C9. When the listing of the argument fails with a file-not-found fault, the listing is
  tried once more, with the base name of the argument as the pattern and its parent as the
  directory. Of that second attempt every error is returned, a file-not-found fault too, and
  an empty result is the error \<open>File ... was not found\<close>. The result of a first attempt
  that succeeds is kept, an empty one too, and any other error of the first attempt is
  returned.
\<close>

theorem ls_pattern_retry:
  "spec0 = \<lparr>MatchPattern = [''*''], Details = long\<rparr>
   \<and> spec1 = \<lparr>MatchPattern = [path_Base arg], Details = long\<rparr> \<longrightarrow>
     (ListPath b arg spec0 = Inl err \<and> IsFileNotFound err \<longrightarrow>
        (ListPath b (path_Dir arg) spec1 = Inl err' \<longrightarrow> ls_arg b long arg = Inl err')
      \<and> (ListPath b (path_Dir arg) spec1 = Inr r \<and> File r = [] \<longrightarrow>
           ls_arg b long arg
             = Inl (errorString (''File '' @ FolderPath r @ ''/'' @ path_Base arg @ '' was not found'')))
      \<and> (ListPath b (path_Dir arg) spec1 = Inr r \<and> File r \<noteq> [] \<longrightarrow> ls_arg b long arg = Inr r))
   \<and> (ListPath b arg spec0 = Inl err \<and> \<not> IsFileNotFound err \<longrightarrow> ls_arg b long arg = Inl err)
   \<and> (ListPath b arg spec0 = Inr r \<longrightarrow> ls_arg b long arg = Inr r)"
  by (simp add: ls_arg_def ls_loop.simps [of b 0] ls_loop.simps [of b "Suc 0"])

theorem ls_pattern_retry_witness:
  "ListPath ex_browser ''vm/missing.vmx'' \<lparr>MatchPattern = [''*''], Details = False\<rparr>
     = Inl (TaskError FileNotFound)
   \<and> IsFileNotFound (TaskError FileNotFound)
   \<and> path_Dir ''vm/missing.vmx'' = ''vm'' \<and> path_Base ''vm/missing.vmx'' = ''missing.vmx''
   \<and> ListPath ex_browser ''vm'' \<lparr>MatchPattern = [''missing.vmx''], Details = False\<rparr>
     = Inr \<lparr>FolderPath = ''[ds] vm'', File = []\<rparr>
   \<and> ls_arg ex_browser False ''vm/missing.vmx''
     = Inl (errorString ''File [ds] vm/missing.vmx was not found'')"
  using ls_pattern_retry [of "\<lparr>MatchPattern = [''*''], Details = False\<rparr>" False
      "\<lparr>MatchPattern = [''missing.vmx''], Details = False\<rparr>" "''vm/missing.vmx''" ex_browser
      "TaskError FileNotFound" "TaskError FileNotFound" "\<lparr>FolderPath = ''[ds] vm'', File = []\<rparr>"]
  by (simp add: ex_browser_def ListPath_def IsFileNotFound_def path_Dir_def path_Base_def
        path_Split_def Clean_def)

section \<open>Properties of the session file\<close>

lemma shouldEscape_percent: "shouldEscape CHR ''%'' mode"
  by (cases mode) (simp_all add: shouldEscape_def isAlnum_def)

lemma upperhex_inj: "a < 16 \<Longrightarrow> b < 16 \<Longrightarrow> upperhex a = upperhex b \<Longrightarrow> a = b"
proof -
  assume "a < 16" "b < 16" "upperhex a = upperhex b"
  moreover have "distinct ''0123456789ABCDEF''" by simp
  ultimately show ?thesis
    by (simp add: upperhex_def nth_eq_iff_index_eq)
qed

lemma of_char_hex: "(of_char c :: nat) div 16 < 16" "(of_char c :: nat) mod 16 < 16"
proof -
  have "(of_char c :: nat) mod 256 < 256" by simp
  then have "(of_char c :: nat) < 256" by (simp only: of_char_mod_256)
  then show "(of_char c :: nat) div 16 < 16"
    using less_mult_imp_div_less [of "of_char c" 16 16] by simp
  show "(of_char c :: nat) mod 16 < 16" by simp
qed

lemma escape_inj: "escape s mode = escape t mode \<Longrightarrow> s = t"
proof (induction s arbitrary: t)
  case Nil
  then show ?case by (cases t) (simp_all split: if_splits)
next
  case (Cons c s)
  show ?case
  proof (cases t)
    case Nil
    with Cons.prems show ?thesis by (simp split: if_splits)
  next
    case (Cons d t')
    have ne: "\<not> shouldEscape x mode \<Longrightarrow> x \<noteq> CHR ''%''" for x
      using shouldEscape_percent by auto
    from Cons.prems Cons have "c = d \<and> escape s mode = escape t' mode"
    proof (cases "shouldEscape c mode"; cases "shouldEscape d mode")
      assume a: "shouldEscape c mode" "shouldEscape d mode"
      with Cons.prems Cons have h: "upperhex (of_char c div 16) = upperhex (of_char d div 16)"
        "upperhex (of_char c mod 16) = upperhex (of_char d mod 16)" "escape s mode = escape t' mode"
        by simp_all
      have "(of_char c :: nat) div 16 = of_char d div 16" "(of_char c :: nat) mod 16 = of_char d mod 16"
        using h upperhex_inj of_char_hex by blast+
      then have "(of_char c :: nat) = of_char d"
        by (metis div_mult_mod_eq)
      then show ?thesis using h by simp
    qed (use ne in auto)
    with Cons.IH Cons show ?thesis by auto
  qed
qed



lemma append_suffix_neq: "a @ ''#insecure=true'' \<noteq> b @ ''#insecure=false''"
proof
  assume "a @ ''#insecure=true'' = b @ ''#insecure=false''"
  then have "rev (a @ ''#insecure=true'') = rev (b @ ''#insecure=false'')"
    by (rule arg_cong)
  then show False by simp
qed

lemma sessionKey_insecure: "ins1 \<noteq> ins2 \<Longrightarrow> sessionKey u1 ins1 \<noteq> sessionKey u2 ins2"
  using append_suffix_neq [of "URL_String u1" "URL_String u2"]
        append_suffix_neq [of "URL_String u2" "URL_String u1"]
  by (cases ins1; cases ins2) (auto simp add: sessionKey_def)

lemma sessionKey_host:
  assumes "Opaque u = []" and "User u \<noteq> None" and "h1 \<noteq> h2"
  shows "sessionKey (u\<lparr>Host := h1\<rparr>) ins \<noteq> sessionKey (u\<lparr>Host := h2\<rparr>) ins"
proof
  assume eq: "sessionKey (u\<lparr>Host := h1\<rparr>) ins = sessionKey (u\<lparr>Host := h2\<rparr>) ins"
  obtain ui where ui: "User u = Some ui" using assms(2) by auto
  define sep where "sep h = (if EscapedPath u \<noteq> [] \<and> hd (EscapedPath u) \<noteq> CHR ''/'' \<and> h \<noteq> [] then ''/'' else [])" for h :: string
  have str: "URL_String (u\<lparr>Host := h\<rparr>) =
      ((if Scheme u \<noteq> [] then Scheme u @ '':'' else []) @ ''//'' @ Userinfo_String ui @ ''@'')
        @ (escape h encodeHost @ sep h)
        @ (EscapedPath u @ (if RawQuery u \<noteq> [] then ''?'' @ RawQuery u else [])
            @ (if Fragment u \<noteq> [] then ''#'' @ escape (Fragment u) encodeFragment else []))" for h
    using assms(1) ui by (simp add: URL_String_def EscapedPath_def Let_def sep_def)
  from eq have "escape h1 encodeHost @ sep h1 = escape h2 encodeHost @ sep h2"
    unfolding sessionKey_def str by simp
  moreover have "escape h encodeHost = [] \<longleftrightarrow> h = []" for h
    by (cases h) simp_all
  ultimately have "escape h1 encodeHost = escape h2 encodeHost"
    by (auto simp add: sep_def split: if_splits)
  then show False using escape_inj assms(3) by blast
qed

lemma escape_Nil_iff: "escape h mode = [] \<longleftrightarrow> h = []"
  by (cases h) simp_all

lemma sessionKey_user:
  assumes "Opaque u = []" and "n1 \<noteq> n2"
  shows "sessionKey (u\<lparr>User := Some (url_User n1)\<rparr>) ins \<noteq> sessionKey (u\<lparr>User := Some (url_User n2)\<rparr>) ins"
proof
  assume eq: "sessionKey (u\<lparr>User := Some (url_User n1)\<rparr>) ins = sessionKey (u\<lparr>User := Some (url_User n2)\<rparr>) ins"
  have str: "URL_String (u\<lparr>User := Some (url_User n)\<rparr>) =
      ((if Scheme u \<noteq> [] then Scheme u @ '':'' else []) @ ''//'')
        @ escape n encodeUserPassword
        @ (''@'' @ (if Host u \<noteq> [] then escape (Host u) encodeHost else [])
            @ (if EscapedPath u \<noteq> [] \<and> hd (EscapedPath u) \<noteq> CHR ''/'' \<and> Host u \<noteq> [] then ''/'' else [])
            @ EscapedPath u @ (if RawQuery u \<noteq> [] then ''?'' @ RawQuery u else [])
            @ (if Fragment u \<noteq> [] then ''#'' @ escape (Fragment u) encodeFragment else []))" for n
    using assms(1)
    by (simp add: URL_String_def EscapedPath_def Userinfo_String_def url_User_def Let_def)
  from eq have "escape n1 encodeUserPassword = escape n2 encodeUserPassword"
    unfolding sessionKey_def str by simp
  then show False using escape_inj assms(2) by blast
qed

lemma sessionKey_query:
  assumes "q1 \<noteq> q2"
  shows "sessionKey (u\<lparr>RawQuery := q1\<rparr>) ins \<noteq> sessionKey (u\<lparr>RawQuery := q2\<rparr>) ins"
proof
  assume eq: "sessionKey (u\<lparr>RawQuery := q1\<rparr>) ins = sessionKey (u\<lparr>RawQuery := q2\<rparr>) ins"
  define B where "B = URL_String (u\<lparr>RawQuery := [], Fragment := []\<rparr>)"
  have str: "URL_String (u\<lparr>RawQuery := q\<rparr>) =
      B @ (if q \<noteq> [] then ''?'' @ q else [])
        @ (if Fragment u \<noteq> [] then ''#'' @ escape (Fragment u) encodeFragment else [])" for q
    by (simp add: B_def URL_String_def EscapedPath_def Let_def)
  from eq have "(if q1 \<noteq> [] then ''?'' @ q1 else []) = (if q2 \<noteq> [] then ''?'' @ q2 else [])"
    unfolding sessionKey_def str by simp
  then show False using assms by (auto split: if_splits)
qed

lemma sessionKey_fragment:
  assumes "g1 \<noteq> g2"
  shows "sessionKey (u\<lparr>Fragment := g1\<rparr>) ins \<noteq> sessionKey (u\<lparr>Fragment := g2\<rparr>) ins"
proof
  assume eq: "sessionKey (u\<lparr>Fragment := g1\<rparr>) ins = sessionKey (u\<lparr>Fragment := g2\<rparr>) ins"
  define B where "B = URL_String (u\<lparr>Fragment := []\<rparr>)"
  have str: "URL_String (u\<lparr>Fragment := g\<rparr>) =
      B @ (if g \<noteq> [] then ''#'' @ escape g encodeFragment else [])" for g
    by (simp add: B_def URL_String_def EscapedPath_def Let_def)
  from eq have "(if g1 \<noteq> [] then ''#'' @ escape g1 encodeFragment else [])
      = (if g2 \<noteq> [] then ''#'' @ escape g2 encodeFragment else [])"
    unfolding sessionKey_def str by simp
  then have "escape g1 encodeFragment = escape g2 encodeFragment"
    by (auto simp add: escape_Nil_iff split: if_splits)
  then show False using escape_inj assms by blast
qed

lemma sessionFile_eval:
  "url flag = Some u \<Longrightarrow> sessionKey (withoutCredentials u) (insecure flag) = k \<Longrightarrow>
     Sprintf_040x (sha1_Sum (bytes_of k)) = n \<Longrightarrow>
     filepath_Join [home, ''.govmomi'', ''sessions'', n] = p \<Longrightarrow> sessionFile home flag = Inr p"
  by (simp add: sessionFile_def URLWithoutPassword_def Let_def del: filepath_Join.simps)

lemma key_alice:
  "sessionKey (withoutCredentials ex_url) (insecure ex_flag)
     = ''https://alice@vc.example.com/sdk#insecure=false''"
  by (simp add: sessionKey_def withoutCredentials_def ex_url_def ex_flag_def url_eval)

lemma key_bob:
  "sessionKey (withoutCredentials (ex_url\<lparr>User := Some (url_UserPassword ''bob'' ''s3cret'')\<rparr>))
       (insecure ex_flag_bob)
     = ''https://bob@vc.example.com/sdk#insecure=false''"
  by (simp add: sessionKey_def withoutCredentials_def ex_url_def ex_flag_bob_def ex_flag_def url_eval)

lemma key_query:
  "sessionKey (withoutCredentials (ex_url\<lparr>RawQuery := ''x=1''\<rparr>)) (insecure ex_flag_query)
     = ''https://alice@vc.example.com/sdk?x=1#insecure=false''"
  by (simp add: sessionKey_def withoutCredentials_def ex_url_def ex_flag_query_def ex_flag_def url_eval)

lemma url_ex_flag: "url ex_flag = Some ex_url"
  by (simp add: ex_flag_def)

lemma url_ex_flag_bob:
  "url ex_flag_bob = Some (ex_url\<lparr>User := Some (url_UserPassword ''bob'' ''s3cret'')\<rparr>)"
  by (simp add: ex_flag_bob_def)

lemma url_ex_flag_query: "url ex_flag_query = Some (ex_url\<lparr>RawQuery := ''x=1''\<rparr>)"
  by (simp add: ex_flag_query_def)

lemma sum_alice:
  "Sprintf_040x (sha1_Sum (bytes_of ''https://alice@vc.example.com/sdk#insecure=false''))
     = ''82b59bc8fd2c107dc77b1fdf5f742d5e3aab1a62''"
  by (simp add: sha1_eval)

lemma sum_bob:
  "Sprintf_040x (sha1_Sum (bytes_of ''https://bob@vc.example.com/sdk#insecure=false''))
     = ''1b4741f9e4e71be0dba3df9dd36c992b1018e828''"
  by (simp add: sha1_eval)

lemma sum_query:
  "Sprintf_040x (sha1_Sum (bytes_of ''https://alice@vc.example.com/sdk?x=1#insecure=false''))
     = ''dcb0dca1ab04a5f561b857409536d2f30cc9916a''"
  by (simp add: sha1_eval)

lemma join_alice:
  "filepath_Join [''/home/u'', ''.govmomi'', ''sessions'', ''82b59bc8fd2c107dc77b1fdf5f742d5e3aab1a62'']
     = ''/home/u/.govmomi/sessions/82b59bc8fd2c107dc77b1fdf5f742d5e3aab1a62''"
  by (simp add: Clean_def)

lemma join_bob:
  "filepath_Join [''/home/u'', ''.govmomi'', ''sessions'', ''1b4741f9e4e71be0dba3df9dd36c992b1018e828'']
     = ''/home/u/.govmomi/sessions/1b4741f9e4e71be0dba3df9dd36c992b1018e828''"
  by (simp add: Clean_def)

lemma join_query:
  "filepath_Join [''/home/u'', ''.govmomi'', ''sessions'', ''dcb0dca1ab04a5f561b857409536d2f30cc9916a'']
     = ''/home/u/.govmomi/sessions/dcb0dca1ab04a5f561b857409536d2f30cc9916a''"
  by (simp add: Clean_def)

text \<open>
  C1, as stated, fails: \<open>ex_flag\<close>, \<open>ex_flag_bob\<close> and \<open>ex_flag_query\<close> agree on scheme,
  host, path and the insecure flag, and differ in the username or in the query only, and
  their session files are three different files.
\<close>

theorem sessionFile_counterexample:
  "sessionFile ''/home/u'' ex_flag
     = Inr ''/home/u/.govmomi/sessions/82b59bc8fd2c107dc77b1fdf5f742d5e3aab1a62''
   \<and> sessionFile ''/home/u'' ex_flag_bob
     = Inr ''/home/u/.govmomi/sessions/1b4741f9e4e71be0dba3df9dd36c992b1018e828''
   \<and> sessionFile ''/home/u'' ex_flag_query
     = Inr ''/home/u/.govmomi/sessions/dcb0dca1ab04a5f561b857409536d2f30cc9916a''
   \<and> sessionFile ''/home/u'' ex_flag \<noteq> sessionFile ''/home/u'' ex_flag_bob
   \<and> sessionFile ''/home/u'' ex_flag \<noteq> sessionFile ''/home/u'' ex_flag_query"
proof -
  have "sessionFile ''/home/u'' ex_flag
     = Inr ''/home/u/.govmomi/sessions/82b59bc8fd2c107dc77b1fdf5f742d5e3aab1a62''
   \<and> sessionFile ''/home/u'' ex_flag_bob
     = Inr ''/home/u/.govmomi/sessions/1b4741f9e4e71be0dba3df9dd36c992b1018e828''
   \<and> sessionFile ''/home/u'' ex_flag_query
     = Inr ''/home/u/.govmomi/sessions/dcb0dca1ab04a5f561b857409536d2f30cc9916a''"
  proof (intro conjI)
    show "sessionFile ''/home/u'' ex_flag
            = Inr ''/home/u/.govmomi/sessions/82b59bc8fd2c107dc77b1fdf5f742d5e3aab1a62''"
      by (rule sessionFile_eval [OF url_ex_flag key_alice sum_alice join_alice])
    show "sessionFile ''/home/u'' ex_flag_bob
            = Inr ''/home/u/.govmomi/sessions/1b4741f9e4e71be0dba3df9dd36c992b1018e828''"
      by (rule sessionFile_eval [OF url_ex_flag_bob key_bob sum_bob join_bob])
    show "sessionFile ''/home/u'' ex_flag_query
            = Inr ''/home/u/.govmomi/sessions/dcb0dca1ab04a5f561b857409536d2f30cc9916a''"
      by (rule sessionFile_eval [OF url_ex_flag_query key_query sum_query join_query])
  qed
  then show ?thesis
    by simp
qed

text \<open>
  C1, amended. The session file is named by the SHA-1 digest of a key that is made of the
  URL without its password and of the insecure flag, so the username, the query and the
  fragment are part of the key. Two flags whose URLs differ in the password only, and that
  agree on the insecure flag, get the same file. Two flags hash different keys when they
  differ in the insecure flag, and when they agree on it and their URLs differ in the
  query only, in the fragment only or, for a URL without an opaque part, in the host only
  or in the username.
\<close>

theorem sessionFile_key:
  "url f1 = Some u1 \<and> url f2 = Some u2 \<longrightarrow>
     sessionFile home f1
       = Inr (filepath_Join [home, ''.govmomi'', ''sessions'',
                Sprintf_040x (sha1_Sum (bytes_of (sessionKey (withoutCredentials u1) (insecure f1))))])
   \<and> (Username (User u1) = Username (User u2) \<and> u1\<lparr>User := None\<rparr> = u2\<lparr>User := None\<rparr>
        \<and> insecure f1 = insecure f2 \<longrightarrow> sessionFile home f1 = sessionFile home f2)
   \<and> (insecure f1 \<noteq> insecure f2 \<longrightarrow>
        sessionKey (withoutCredentials u1) (insecure f1) \<noteq> sessionKey (withoutCredentials u2) (insecure f2))
   \<and> (Opaque u1 = [] \<and> u2 = u1\<lparr>Host := h\<rparr> \<and> h \<noteq> Host u1 \<and> insecure f1 = insecure f2 \<longrightarrow>
        sessionKey (withoutCredentials u1) (insecure f1) \<noteq> sessionKey (withoutCredentials u2) (insecure f2))
   \<and> (Opaque u1 = [] \<and> u2 = u1\<lparr>User := x\<rparr> \<and> Username x \<noteq> Username (User u1)
        \<and> insecure f1 = insecure f2 \<longrightarrow>
        sessionKey (withoutCredentials u1) (insecure f1) \<noteq> sessionKey (withoutCredentials u2) (insecure f2))
   \<and> (u2 = u1\<lparr>RawQuery := q\<rparr> \<and> q \<noteq> RawQuery u1 \<and> insecure f1 = insecure f2 \<longrightarrow>
        sessionKey (withoutCredentials u1) (insecure f1) \<noteq> sessionKey (withoutCredentials u2) (insecure f2))
   \<and> (u2 = u1\<lparr>Fragment := g\<rparr> \<and> g \<noteq> Fragment u1 \<and> insecure f1 = insecure f2 \<longrightarrow>
        sessionKey (withoutCredentials u1) (insecure f1) \<noteq> sessionKey (withoutCredentials u2) (insecure f2))"
proof (intro impI conjI)
  assume U: "url f1 = Some u1 \<and> url f2 = Some u2"
  show "sessionFile home f1
       = Inr (filepath_Join [home, ''.govmomi'', ''sessions'',
                Sprintf_040x (sha1_Sum (bytes_of (sessionKey (withoutCredentials u1) (insecure f1))))])"
    using U by (simp add: sessionFile_def URLWithoutPassword_def Let_def del: filepath_Join.simps)
  show "sessionFile home f1 = sessionFile home f2"
    if "Username (User u1) = Username (User u2) \<and> u1\<lparr>User := None\<rparr> = u2\<lparr>User := None\<rparr>
        \<and> insecure f1 = insecure f2"
  proof -
    from that have "u1\<lparr>User := None\<rparr>\<lparr>User := Some (url_User (Username (User u1)))\<rparr>
        = u2\<lparr>User := None\<rparr>\<lparr>User := Some (url_User (Username (User u2)))\<rparr>"
      by simp
    then have "withoutCredentials u1 = withoutCredentials u2"
      by (simp add: withoutCredentials_def)
    with U that show ?thesis
      by (simp add: sessionFile_def URLWithoutPassword_def)
  qed
  show "sessionKey (withoutCredentials u1) (insecure f1) \<noteq> sessionKey (withoutCredentials u2) (insecure f2)"
    if "insecure f1 \<noteq> insecure f2"
    using that by (rule sessionKey_insecure)
  show "sessionKey (withoutCredentials u1) (insecure f1) \<noteq> sessionKey (withoutCredentials u2) (insecure f2)"
    if H: "Opaque u1 = [] \<and> u2 = u1\<lparr>Host := h\<rparr> \<and> h \<noteq> Host u1 \<and> insecure f1 = insecure f2"
  proof -
    let ?v = "withoutCredentials u1"
    have "Opaque ?v = []" "User ?v \<noteq> None" "Host u1 \<noteq> h"
      using H by (auto simp add: withoutCredentials_def)
    moreover have "withoutCredentials u2 = ?v\<lparr>Host := h\<rparr>" "?v\<lparr>Host := Host u1\<rparr> = ?v"
      using H by (cases u1; simp add: withoutCredentials_def)+
    ultimately show ?thesis
      using sessionKey_host [of ?v "Host u1" h "insecure f1"] H by simp
  qed
  show "sessionKey (withoutCredentials u1) (insecure f1) \<noteq> sessionKey (withoutCredentials u2) (insecure f2)"
    if H: "Opaque u1 = [] \<and> u2 = u1\<lparr>User := x\<rparr> \<and> Username x \<noteq> Username (User u1)
        \<and> insecure f1 = insecure f2"
    using sessionKey_user [of u1 "Username (User u1)" "Username x" "insecure f1"] H
    by (auto simp add: withoutCredentials_def)
  show "sessionKey (withoutCredentials u1) (insecure f1) \<noteq> sessionKey (withoutCredentials u2) (insecure f2)"
    if H: "u2 = u1\<lparr>RawQuery := q\<rparr> \<and> q \<noteq> RawQuery u1 \<and> insecure f1 = insecure f2"
  proof -
    let ?v = "withoutCredentials u1"
    have "withoutCredentials u2 = ?v\<lparr>RawQuery := q\<rparr>" "?v\<lparr>RawQuery := RawQuery u1\<rparr> = ?v"
      using H by (cases u1; simp add: withoutCredentials_def)+
    then show ?thesis
      using sessionKey_query [of "RawQuery u1" q ?v "insecure f1"] H by auto
  qed
  show "sessionKey (withoutCredentials u1) (insecure f1) \<noteq> sessionKey (withoutCredentials u2) (insecure f2)"
    if H: "u2 = u1\<lparr>Fragment := g\<rparr> \<and> g \<noteq> Fragment u1 \<and> insecure f1 = insecure f2"
  proof -
    let ?v = "withoutCredentials u1"
    have "withoutCredentials u2 = ?v\<lparr>Fragment := g\<rparr>" "?v\<lparr>Fragment := Fragment u1\<rparr> = ?v"
      using H by (cases u1; simp add: withoutCredentials_def)+
    then show ?thesis
      using sessionKey_fragment [of "Fragment u1" g ?v "insecure f1"] H by auto
  qed
qed

theorem sessionFile_key_witness:
  "url ex_flag = Some ex_url
   \<and> url (ex_flag\<lparr>url := Some (ex_url\<lparr>User := Some (url_UserPassword ''alice'' ''other'')\<rparr>)\<rparr>)
       = Some (ex_url\<lparr>User := Some (url_UserPassword ''alice'' ''other'')\<rparr>)
   \<and> Username (User ex_url) = Username (Some (url_UserPassword ''alice'' ''other''))
   \<and> sessionFile ''/home/u'' ex_flag
       = sessionFile ''/home/u''
           (ex_flag\<lparr>url := Some (ex_url\<lparr>User := Some (url_UserPassword ''alice'' ''other'')\<rparr>)\<rparr>)"
proof -
  let ?u2 = "ex_url\<lparr>User := Some (url_UserPassword ''alice'' ''other'')\<rparr>"
  let ?f2 = "ex_flag\<lparr>url := Some ?u2\<rparr>"
  have a: "url ex_flag = Some ex_url" "url ?f2 = Some ?u2"
    by (simp_all add: ex_flag_def)
  have b: "Username (User ex_url) = Username (Some (url_UserPassword ''alice'' ''other''))"
    by (simp add: ex_url_def Username_def url_UserPassword_def)
  have c: "Username (User ex_url) = Username (User ?u2)" "ex_url\<lparr>User := None\<rparr> = ?u2\<lparr>User := None\<rparr>"
    "insecure ex_flag = insecure ?f2"
    using b by simp_all
  from sessionFile_key [where ?f1.0 = ex_flag and ?u1.0 = ex_url and ?f2.0 = ?f2 and ?u2.0 = ?u2
      and home = "''/home/u''"] a c
  have "sessionFile ''/home/u'' ex_flag = sessionFile ''/home/u'' ?f2"
    by blast
  with a b show ?thesis
    by blast
qed

end
